theory Spec2Isabelle
  imports Complex_Main
begin

section \<open>Numbers and vectors\<close>

text \<open>
  The renderer computes with C++ \<^verbatim>\<open>float\<close>. A value of the model is a real number, one
  of the two infinities, or NaN; the operations follow IEEE 754 on these four kinds of
  value (NaN is absorbing and compares false with everything, a finite nonzero value
  divided by zero is infinite, zero divided by zero is NaN). Rounding and the sign of
  zero are not modelled: a finite result is the exact real result.
\<close>

datatype float = Fin real | PInf | NInf | NaN

fun isnan :: "float \<Rightarrow> bool" where
  "isnan NaN = True"
| "isnan _ = False"

fun fsqrt :: "float \<Rightarrow> float" where
  "fsqrt (Fin a) = (if a < 0 then NaN else Fin (sqrt a))"
| "fsqrt PInf = PInf"
| "fsqrt NInf = NaN"
| "fsqrt NaN = NaN"

instantiation float :: "{zero, one, plus, minus, uminus, times, divide, abs, ord}"
begin

definition zero_float :: float where
  "zero_float = Fin 0"

definition one_float :: float where
  "one_float = Fin 1"

fun plus_float :: "float \<Rightarrow> float \<Rightarrow> float" where
  "plus_float NaN _ = NaN"
| "plus_float _ NaN = NaN"
| "plus_float PInf NInf = NaN"
| "plus_float NInf PInf = NaN"
| "plus_float PInf _ = PInf"
| "plus_float _ PInf = PInf"
| "plus_float NInf _ = NInf"
| "plus_float _ NInf = NInf"
| "plus_float (Fin a) (Fin b) = Fin (a + b)"

fun uminus_float :: "float \<Rightarrow> float" where
  "uminus_float (Fin a) = Fin (- a)"
| "uminus_float PInf = NInf"
| "uminus_float NInf = PInf"
| "uminus_float NaN = NaN"

definition minus_float :: "float \<Rightarrow> float \<Rightarrow> float" where
  "minus_float a b = a + (- b)"

fun times_float :: "float \<Rightarrow> float \<Rightarrow> float" where
  "times_float NaN _ = NaN"
| "times_float _ NaN = NaN"
| "times_float (Fin a) (Fin b) = Fin (a * b)"
| "times_float (Fin a) PInf = (if a = 0 then NaN else if 0 < a then PInf else NInf)"
| "times_float (Fin a) NInf = (if a = 0 then NaN else if 0 < a then NInf else PInf)"
| "times_float PInf (Fin b) = (if b = 0 then NaN else if 0 < b then PInf else NInf)"
| "times_float NInf (Fin b) = (if b = 0 then NaN else if 0 < b then NInf else PInf)"
| "times_float PInf PInf = PInf"
| "times_float PInf NInf = NInf"
| "times_float NInf PInf = NInf"
| "times_float NInf NInf = PInf"

fun divide_float :: "float \<Rightarrow> float \<Rightarrow> float" where
  "divide_float NaN _ = NaN"
| "divide_float _ NaN = NaN"
| "divide_float (Fin a) (Fin b) =
     (if b = 0 then (if a = 0 then NaN else if 0 < a then PInf else NInf)
      else Fin (a / b))"
| "divide_float (Fin a) PInf = Fin 0"
| "divide_float (Fin a) NInf = Fin 0"
| "divide_float PInf (Fin b) = (if 0 \<le> b then PInf else NInf)"
| "divide_float NInf (Fin b) = (if 0 \<le> b then NInf else PInf)"
| "divide_float PInf PInf = NaN"
| "divide_float PInf NInf = NaN"
| "divide_float NInf PInf = NaN"
| "divide_float NInf NInf = NaN"

fun abs_float :: "float \<Rightarrow> float" where
  "abs_float (Fin a) = Fin \<bar>a\<bar>"
| "abs_float PInf = PInf"
| "abs_float NInf = PInf"
| "abs_float NaN = NaN"

fun less_float :: "float \<Rightarrow> float \<Rightarrow> bool" where
  "less_float (Fin a) (Fin b) = (a < b)"
| "less_float (Fin a) PInf = True"
| "less_float NInf (Fin b) = True"
| "less_float NInf PInf = True"
| "less_float _ _ = False"

fun less_eq_float :: "float \<Rightarrow> float \<Rightarrow> bool" where
  "less_eq_float (Fin a) (Fin b) = (a \<le> b)"
| "less_eq_float (Fin a) PInf = True"
| "less_eq_float NInf (Fin b) = True"
| "less_eq_float NInf PInf = True"
| "less_eq_float PInf PInf = True"
| "less_eq_float NInf NInf = True"
| "less_eq_float _ _ = False"

instance ..

end

instantiation float :: inverse
begin

definition inverse_float :: "float \<Rightarrow> float" where
  "inverse_float a = divide (Fin 1) a"

instance ..

end

text \<open>
  \<^verbatim>\<open>std::min(a, b)\<close> is \<^verbatim>\<open>(b < a) ? b : a\<close> and \<^verbatim>\<open>std::max(a, b)\<close> is
  \<^verbatim>\<open>(a < b) ? b : a\<close>; with a NaN argument they are not symmetric, so they are written
  out rather than taken from an order.
\<close>

definition std_min :: "float \<Rightarrow> float \<Rightarrow> float" where
  "std_min a b = (if b < a then b else a)"

definition std_max :: "float \<Rightarrow> float \<Rightarrow> float" where
  "std_max a b = (if a < b then b else a)"

text \<open>An \<^verbatim>\<open>int\<close> operand of a float operation is converted to float.\<close>

definition int_to_float :: "int \<Rightarrow> float" where
  "int_to_float n = Fin (of_int n)"

text \<open>
  Modelled from the spec: the constant \<^verbatim>\<open>PI\<close> is declared in a header that is not among
  the sources; the spec writes it as the number pi.
\<close>

definition PI :: float where
  "PI = Fin pi"

text \<open>
  Modelled from the spec: \<^verbatim>\<open>Vec3f\<close> and its operators are declared in geometry.h, which
  is not among the sources. A vector is three floats; \<^verbatim>\<open>+\<close>, \<^verbatim>\<open>-\<close> and \<^verbatim>\<open>*\<close> between
  vectors work channel by channel, a vector is scaled and divided by a float channel by
  channel, \<^verbatim>\<open>dot\<close> is the inner product, \<^verbatim>\<open>length\<close> the Euclidean norm and
  \<^verbatim>\<open>normalize\<close> divides by it. A default-constructed vector and \<^verbatim>\<open>Vec3f(0)\<close> are the
  zero vector.
\<close>

datatype Vec3f = Vec3f (vx: float) (vy: float) (vz: float)

instantiation Vec3f :: "{zero, plus, minus, uminus, times}"
begin

definition zero_Vec3f :: Vec3f where
  "zero_Vec3f = Vec3f (Fin 0) (Fin 0) (Fin 0)"

fun plus_Vec3f :: "Vec3f \<Rightarrow> Vec3f \<Rightarrow> Vec3f" where
  "plus_Vec3f (Vec3f a b c) (Vec3f x y z) = Vec3f (a + x) (b + y) (c + z)"

fun minus_Vec3f :: "Vec3f \<Rightarrow> Vec3f \<Rightarrow> Vec3f" where
  "minus_Vec3f (Vec3f a b c) (Vec3f x y z) = Vec3f (a - x) (b - y) (c - z)"

fun uminus_Vec3f :: "Vec3f \<Rightarrow> Vec3f" where
  "uminus_Vec3f (Vec3f a b c) = Vec3f (- a) (- b) (- c)"

fun times_Vec3f :: "Vec3f \<Rightarrow> Vec3f \<Rightarrow> Vec3f" where
  "times_Vec3f (Vec3f a b c) (Vec3f x y z) = Vec3f (a * x) (b * y) (c * z)"

instance ..

end

fun vscale :: "Vec3f \<Rightarrow> float \<Rightarrow> Vec3f" where
  "vscale (Vec3f a b c) k = Vec3f (a * k) (b * k) (c * k)"

fun vdiv :: "Vec3f \<Rightarrow> float \<Rightarrow> Vec3f" where
  "vdiv (Vec3f a b c) k = Vec3f (a / k) (b / k) (c / k)"

fun dot :: "Vec3f \<Rightarrow> Vec3f \<Rightarrow> float" where
  "dot (Vec3f a b c) (Vec3f x y z) = a * x + b * y + c * z"

definition length_v :: "Vec3f \<Rightarrow> float" where
  "length_v v = fsqrt (dot v v)"

definition normalize :: "Vec3f \<Rightarrow> Vec3f" where
  "normalize v = vdiv v (length_v v)"

section \<open>Surfaces and the cosine term\<close>

text \<open>
  Modelled from the spec: the two enumerations are declared in headers that are not
  among the sources. The spec gives the material tag as the closed set Diffuse,
  Specular, and the transport direction as FROM_CAMERA or FROM_LIGHT. With these two
  values the last branch of \<^verbatim>\<open>cosTerm\<close> (invalid transport direction, which exits the
  process) is not reachable.
\<close>

datatype TransportDirection = FROM_CAMERA | FROM_LIGHT

datatype BxDFType = DIFFUSE | SPECULAR

text \<open>
  Modelled from the spec: \<^verbatim>\<open>SurfaceInfo\<close>, \<^verbatim>\<open>Ray\<close> and \<^verbatim>\<open>IntersectInfo\<close> are
  declared in headers that are not among the sources. The records have the fields that
  the integrator reads and writes.
\<close>

record SurfaceInfo =
  position :: Vec3f
  shadingNormal :: Vec3f
  geometricNormal :: Vec3f

definition cosTerm :: "Vec3f \<Rightarrow> Vec3f \<Rightarrow> SurfaceInfo \<Rightarrow> TransportDirection \<Rightarrow> float" where
  "cosTerm wo wi surfaceInfo transport_dir =
     (let wi_ns = dot wi (shadingNormal surfaceInfo);
          wi_ng = dot wi (geometricNormal surfaceInfo);
          wo_ns = dot wo (shadingNormal surfaceInfo);
          wo_ng = dot wo (geometricNormal surfaceInfo)
      in if wi_ng * wi_ns \<le> Fin 0 \<or> wo_ng * wo_ns \<le> Fin 0 then Fin 0
         else (case transport_dir of
                 FROM_CAMERA \<Rightarrow> \<bar>wi_ns\<bar>
               | FROM_LIGHT \<Rightarrow> \<bar>wo_ns\<bar> * \<bar>wi_ng\<bar> / \<bar>wo_ng\<bar>))"

section \<open>Scene, photons and the integrator's state\<close>

record Ray =
  origin :: Vec3f
  direction :: Vec3f
  tmax :: float

record 'p IntersectInfo =
  surfaceInfo :: SurfaceInfo
  hitPrimitive :: 'p

text \<open>
  A photon is constructed from the throughput, the hit position and the negated ray
  direction, in this order; the integrator reads its fields \<^verbatim>\<open>throughput\<close> and
  \<^verbatim>\<open>wi\<close>.
\<close>

datatype Photon = Photon (p_throughput: Vec3f) (p_position: Vec3f) (p_wi: Vec3f)

text \<open>
  Modelled from the spec: the scene, the primitives with their materials, the lights,
  the sampler and the photon map's k-nearest-neighbour query are declared in headers
  that are not among the sources. Their operations are parameters of the model: \<open>'p\<close> is
  the type of primitives, \<open>'l\<close> of lights and \<open>'s\<close> of sampler states. An operation that
  draws random numbers takes the sampler state and returns the new one; an operation
  with output parameters returns them with its result. \<^verbatim>\<open>scene.intersect\<close> returns the
  hit, or \<open>None\<close> for \<^verbatim>\<open>false\<close>. \<^verbatim>\<open>RAY_EPS\<close> and the value of \<^verbatim>\<open>tmax\<close> that the
  constructor of \<^verbatim>\<open>Ray\<close> sets are constants of the missing headers.
\<close>

record ('p, 'l, 's) Env =
  intersect :: "Ray \<Rightarrow> 'p IntersectInfo option"
  hasAreaLight :: "'p \<Rightarrow> bool"
  Le_primitive :: "'p \<Rightarrow> SurfaceInfo \<Rightarrow> Vec3f \<Rightarrow> Vec3f"
  getBxDFType :: "'p \<Rightarrow> BxDFType"
  evaluateBxDF :: "'p \<Rightarrow> Vec3f \<Rightarrow> Vec3f \<Rightarrow> SurfaceInfo \<Rightarrow> TransportDirection \<Rightarrow> Vec3f"
  sampleBxDF :: "'p \<Rightarrow> Vec3f \<Rightarrow> SurfaceInfo \<Rightarrow> TransportDirection \<Rightarrow> 's
                 \<Rightarrow> (Vec3f \<times> Vec3f \<times> float) \<times> 's"
  sampleAllBxDF :: "'p \<Rightarrow> Vec3f \<Rightarrow> SurfaceInfo \<Rightarrow> TransportDirection \<Rightarrow> (Vec3f \<times> Vec3f) list"
  sampleLight :: "'s \<Rightarrow> ('l \<times> float) \<times> 's"
  samplePoint :: "'l \<Rightarrow> 's \<Rightarrow> (SurfaceInfo \<times> float) \<times> 's"
  sampleDirection :: "'l \<Rightarrow> SurfaceInfo \<Rightarrow> 's \<Rightarrow> (Vec3f \<times> float) \<times> 's"
  Le_light :: "'l \<Rightarrow> SurfaceInfo \<Rightarrow> Vec3f \<Rightarrow> Vec3f"
  getNext1D :: "'s \<Rightarrow> float \<times> 's"
  getSeed :: "'s \<Rightarrow> int"
  setSeed :: "'s \<Rightarrow> int \<Rightarrow> 's"
  UniformSampler :: "int \<Rightarrow> 's"
  camera_sampleRay :: "float \<Rightarrow> float \<Rightarrow> (Ray \<times> float) option"
  queryKNearestPhotons :: "Photon list \<Rightarrow> Vec3f \<Rightarrow> int \<Rightarrow> int list \<times> float"
  RAY_EPS :: float
  RAY_TMAX :: float

definition Ray_ctor :: "('p, 'l, 's) Env \<Rightarrow> Vec3f \<Rightarrow> Vec3f \<Rightarrow> Ray" where
  "Ray_ctor env org dir = \<lparr>origin = org, direction = dir, tmax = RAY_TMAX env\<rparr>"

text \<open>
  Modelled from the spec: a photon map is the ordered sequence of its photons (the
  spatial index over their positions is behind \<open>queryKNearestPhotons\<close>), and it is empty
  until \<^verbatim>\<open>setPhotons\<close>. \<^verbatim>\<open>getIthPhoton\<close> reads the sequence at an index the query
  returned; at an index outside the sequence the C++ is undefined and so is the model.
\<close>

type_synonym PhotonMap = "Photon list"

definition getIthPhoton :: "PhotonMap \<Rightarrow> int \<Rightarrow> Photon" where
  "getIthPhoton photonMap i = photonMap ! nat i"

record PhotonMapping =
  nPhotonsGlobal :: int
  nEstimationGlobal :: int
  nPhotonsCaustics :: int
  nEstimationCaustics :: int
  finalGatheringDepth :: int
  maxDepth :: int
  globalPhotonMap :: PhotonMap
  causticsPhotonMap :: PhotonMap

text \<open>
  The constructor computes \<^verbatim>\<open>nPhotonsGlobal * nPhotonsCausticsMultiplier\<close> in float and
  converts the product to \<^verbatim>\<open>int\<close>, which truncates toward zero. The conversion of an
  infinity or a NaN is undefined in C++; the model gives 0 there, and \<^verbatim>\<open>main\<close> never
  passes one.
\<close>

fun float_to_int :: "float \<Rightarrow> int" where
  "float_to_int (Fin a) = (if 0 \<le> a then \<lfloor>a\<rfloor> else \<lceil>a\<rceil>)"
| "float_to_int _ = 0"

definition PhotonMapping_ctor :: "int \<Rightarrow> int \<Rightarrow> float \<Rightarrow> int \<Rightarrow> int \<Rightarrow> int \<Rightarrow> PhotonMapping" where
  "PhotonMapping_ctor nPhotonsGlobal' nEstimationGlobal' nPhotonsCausticsMultiplier
     nEstimationCaustics' strictCalcDepth maxDepth' =
     \<lparr>nPhotonsGlobal = nPhotonsGlobal',
      nEstimationGlobal = nEstimationGlobal',
      nPhotonsCaustics = float_to_int (int_to_float nPhotonsGlobal' * nPhotonsCausticsMultiplier),
      nEstimationCaustics = nEstimationCaustics',
      finalGatheringDepth = strictCalcDepth,
      maxDepth = maxDepth',
      globalPhotonMap = [],
      causticsPhotonMap = []\<rparr>"

section \<open>Density estimation\<close>

definition computeRadianceWithPhotonMap ::
  "('p, 'l, 's) Env \<Rightarrow> PhotonMapping \<Rightarrow> Vec3f \<Rightarrow> 'p IntersectInfo \<Rightarrow> Vec3f" where
  "computeRadianceWithPhotonMap env pm wo info =
     (case queryKNearestPhotons env (globalPhotonMap pm) (position (surfaceInfo info))
             (nEstimationGlobal pm) of
        (photon_indices, max_dist2) \<Rightarrow>
          (let Lo = fold (\<lambda>photon_idx Lo.
                        let photon = getIthPhoton (globalPhotonMap pm) photon_idx;
                            f = evaluateBxDF env (hitPrimitive info) wo (p_wi photon)
                                  (surfaceInfo info) FROM_CAMERA
                        in Lo + f * p_throughput photon) photon_indices 0
           in if length photon_indices > 0
              then vdiv Lo (int_to_float (nPhotonsGlobal pm) * PI * max_dist2)
              else Lo))"

definition computeCausticsWithPhotonMap ::
  "('p, 'l, 's) Env \<Rightarrow> PhotonMapping \<Rightarrow> Vec3f \<Rightarrow> 'p IntersectInfo \<Rightarrow> Vec3f" where
  "computeCausticsWithPhotonMap env pm wo info =
     (case queryKNearestPhotons env (causticsPhotonMap pm) (position (surfaceInfo info))
             (nEstimationGlobal pm) of
        (photon_indices, max_dist2) \<Rightarrow>
          (let Lo = fold (\<lambda>photon_idx Lo.
                        let photon = getIthPhoton (causticsPhotonMap pm) photon_idx;
                            f = evaluateBxDF env (hitPrimitive info) wo (p_wi photon)
                                  (surfaceInfo info) FROM_CAMERA
                        in Lo + f * p_throughput photon) photon_indices 0
           in if length photon_indices > 0
              then vdiv Lo (int_to_float (nPhotonsCaustics pm) * PI * max_dist2)
              else Lo))"

section \<open>Direct illumination and final gathering\<close>

definition computeDirectIllumination ::
  "('p, 'l, 's) Env \<Rightarrow> Vec3f \<Rightarrow> 'p IntersectInfo \<Rightarrow> 's \<Rightarrow> Vec3f \<times> 's" where
  "computeDirectIllumination env wo info s =
     (case sampleLight env s of ((light, pdf_choose_light), s1) \<Rightarrow>
      case samplePoint env light s1 of ((light_surf, pdf_pos_light), s2) \<Rightarrow>
        (let wi = normalize (position light_surf - position (surfaceInfo info));
             r = length_v (position light_surf - position (surfaceInfo info));
             pdf_dir = pdf_pos_light * r * r / \<bar>dot (- wi) (shadingNormal light_surf)\<bar>;
             ray_shadow = (Ray_ctor env (position (surfaceInfo info)) wi)
                            \<lparr>tmax := r - RAY_EPS env\<rparr>
         in case intersect env ray_shadow of
              None \<Rightarrow>
                (let Le = Le_light env light light_surf (- wi);
                     f = evaluateBxDF env (hitPrimitive info) wo wi (surfaceInfo info)
                           FROM_CAMERA;
                     cos = \<bar>dot wi (shadingNormal (surfaceInfo info))\<bar>
                 in (vdiv (vscale f cos * Le) (pdf_choose_light * pdf_dir), s2))
            | Some info_shadow \<Rightarrow> (0, s2)))"

function computeIndirectIlluminationRecursive ::
  "('p, 'l, 's) Env \<Rightarrow> PhotonMapping \<Rightarrow> Vec3f \<Rightarrow> 'p IntersectInfo \<Rightarrow> 's \<Rightarrow> int
     \<Rightarrow> Vec3f \<times> 's" where
  "computeIndirectIlluminationRecursive env pm wo info s depth =
     (if depth \<ge> maxDepth pm then (0, s)
      else
        (case sampleBxDF env (hitPrimitive info) wo (surfaceInfo info) FROM_CAMERA s of
           ((f, dir, pdf_dir), s1) \<Rightarrow>
             (let cos = \<bar>dot (shadingNormal (surfaceInfo info)) dir\<bar>;
                  ray_fg = Ray_ctor env (position (surfaceInfo info)) dir
              in case intersect env ray_fg of
                   Some info_fg \<Rightarrow>
                     (case getBxDFType env (hitPrimitive info_fg) of
                        DIFFUSE \<Rightarrow>
                          (0 + vdiv (vscale f cos *
                                 computeRadianceWithPhotonMap env pm (- direction ray_fg) info_fg)
                                 pdf_dir, s1)
                      | SPECULAR \<Rightarrow>
                          (case computeIndirectIlluminationRecursive env pm
                                  (- direction ray_fg) info_fg s1 (depth + 1) of
                             (L, s2) \<Rightarrow> (0 + vdiv (vscale f cos * L) pdf_dir, s2)))
                 | None \<Rightarrow> (0, s1))))"
  by pat_completeness auto
termination
  by (relation "measure (\<lambda>(env, pm, wo, info, s, depth). nat (maxDepth pm - depth))") auto

definition computeIndirectIllumination ::
  "('p, 'l, 's) Env \<Rightarrow> PhotonMapping \<Rightarrow> Vec3f \<Rightarrow> 'p IntersectInfo \<Rightarrow> 's \<Rightarrow> Vec3f \<times> 's" where
  "computeIndirectIllumination env pm wo info s =
     computeIndirectIlluminationRecursive env pm wo info s 0"

section \<open>The recursive radiance estimator\<close>

text \<open>
  The loop over the direction pairs of a shallow specular hit is a \<open>fold\<close> that threads
  the accumulator \<^verbatim>\<open>Lo\<close> and the sampler through the recursive calls, in the order of
  the pairs. The diagnostic printed for an invalid BxDF type belongs to a branch that
  the two material tags do not reach.
\<close>

function integrateRecursive ::
  "('p, 'l, 's) Env \<Rightarrow> PhotonMapping \<Rightarrow> Ray \<Rightarrow> 's \<Rightarrow> int \<Rightarrow> Vec3f \<times> 's" where
  "integrateRecursive env pm ray s depth =
     (if depth \<ge> maxDepth pm then (0, s)
      else
        (case intersect env ray of
           Some info \<Rightarrow>
             (if hasAreaLight env (hitPrimitive info)
              then (Le_primitive env (hitPrimitive info) (surfaceInfo info) (- direction ray), s)
              else
                (case getBxDFType env (hitPrimitive info) of
                   DIFFUSE \<Rightarrow>
                     (if depth \<ge> finalGatheringDepth pm
                      then (computeRadianceWithPhotonMap env pm (- direction ray) info, s)
                      else
                        (case computeDirectIllumination env (- direction ray) info s of
                           (Ld, s1) \<Rightarrow>
                             (let Lc = computeCausticsWithPhotonMap env pm (- direction ray) info
                              in case computeIndirectIllumination env pm (- direction ray) info s1 of
                                   (Li, s2) \<Rightarrow> (Ld + Lc + Li, s2))))
                 | SPECULAR \<Rightarrow>
                     (if depth \<ge> 3
                      then
                        (case sampleBxDF env (hitPrimitive info) (- direction ray)
                                (surfaceInfo info) FROM_CAMERA s of
                           ((f, dir, pdf_dir), s1) \<Rightarrow>
                             (let next_ray = Ray_ctor env (position (surfaceInfo info)) dir;
                                  throughput =
                                    vdiv (vscale f (cosTerm (- direction ray) dir (surfaceInfo info)
                                                      FROM_CAMERA)) pdf_dir
                              in case integrateRecursive env pm next_ray s1 (depth + 1) of
                                   (L, s2) \<Rightarrow> (throughput * L, s2)))
                      else
                        (let dir_pairs = sampleAllBxDF env (hitPrimitive info) (- direction ray)
                                           (surfaceInfo info) FROM_CAMERA
                         in fold (\<lambda>dp (Lo, s').
                                    let dir = fst dp;
                                        f = snd dp;
                                        next_ray = Ray_ctor env (position (surfaceInfo info)) dir;
                                        throughput =
                                          vscale f \<bar>dot dir (shadingNormal (surfaceInfo info))\<bar>
                                    in case integrateRecursive env pm next_ray s' (depth + 1) of
                                         (L, s'') \<Rightarrow> (Lo + throughput * L, s''))
                              dir_pairs (0, s)))))
         | None \<Rightarrow> (0, s)))"
  by pat_completeness auto
termination
  by (relation "measure (\<lambda>(env, pm, ray, s, depth). nat (maxDepth pm - depth))") auto


section \<open>Photon tracing\<close>

definition sampleRayFromLight :: "('p, 'l, 's) Env \<Rightarrow> 's \<Rightarrow> (Ray \<times> Vec3f) \<times> 's" where
  "sampleRayFromLight env s =
     (case sampleLight env s of ((light, light_choose_pdf), s1) \<Rightarrow>
      case samplePoint env light s1 of ((light_surf, light_pos_pdf), s2) \<Rightarrow>
      case sampleDirection env light light_surf s2 of ((dir, light_dir_pdf), s3) \<Rightarrow>
        (let ray = Ray_ctor env (position light_surf) dir;
             throughput =
               vscale (vdiv (Le_light env light light_surf dir)
                         (light_choose_pdf * light_pos_pdf * light_dir_pdf))
                 \<bar>dot dir (shadingNormal light_surf)\<bar>
         in ((ray, throughput), s3)))"

text \<open>
  One iteration of a \<^verbatim>\<open>for (int k = 0; k < maxDepth; ++k)\<close> loop either leaves the loop
  (\<open>Break\<close>, every \<^verbatim>\<open>break\<close> of the source) or hands the updated variables to the next
  iteration (\<open>Continue\<close>).
\<close>

datatype ('r, 'c) LoopStep = Break 'r | Continue 'c

text \<open>
  The two photon passes contain the same two blocks of code, word for word: the Russian
  roulette (\<^verbatim>\<open>if (k > 0) { ... }\<close>) and the sampling of the next direction with the
  update of throughput and ray. Each block is one definition here. The roulette returns
  \<open>None\<close> where the source leaves the loop and the throughput to go on with otherwise.
\<close>

definition russianRoulette ::
  "('p, 'l, 's) Env \<Rightarrow> int \<Rightarrow> Vec3f \<Rightarrow> 's \<Rightarrow> Vec3f option \<times> 's" where
  "russianRoulette env k throughput s =
     (if k > 0
      then
        (let russian_roulette_prob =
               std_min (std_max (vx throughput) (std_max (vy throughput) (vz throughput)))
                 (Fin 1)
         in case getNext1D env s of
              (u, s1) \<Rightarrow>
                if u \<ge> russian_roulette_prob then (None, s1)
                else (Some (vdiv throughput russian_roulette_prob), s1))
      else (Some throughput, s))"

definition scatterPhoton ::
  "('p, 'l, 's) Env \<Rightarrow> Vec3f \<Rightarrow> Ray \<Rightarrow> 'p IntersectInfo \<Rightarrow> 's \<Rightarrow> Vec3f \<times> Ray \<times> 's" where
  "scatterPhoton env throughput ray info s =
     (case sampleBxDF env (hitPrimitive info) (- direction ray) (surfaceInfo info)
             FROM_LIGHT s of
        ((f, dir, pdf_dir), s1) \<Rightarrow>
          (throughput *
             vdiv (vscale f (cosTerm (- direction ray) dir (surfaceInfo info) FROM_LIGHT))
               pdf_dir,
           Ray_ctor env (position (surfaceInfo info)) dir,
           s1))"

text \<open>
  The test for a NaN or a negative channel, which each photon pass applies to the
  throughput and \<^verbatim>\<open>main\<close> to the radiance: both branches print a diagnostic and give up
  the path or the sample.
\<close>

definition nanOrNegative :: "Vec3f \<Rightarrow> bool" where
  "nanOrNegative throughput =
     (if isnan (vx throughput) \<or> isnan (vy throughput) \<or> isnan (vz throughput) then True
      else if vx throughput < Fin 0 \<or> vy throughput < Fin 0 \<or> vz throughput < Fin 0
      then True
      else False)"

text \<open>The body of the bounce loop of the global pass; \<open>photons\<close> is the shared vector.\<close>

definition globalBounce ::
  "('p, 'l, 's) Env \<Rightarrow> int \<Rightarrow> Vec3f \<Rightarrow> Ray \<Rightarrow> 's \<Rightarrow> Photon list
     \<Rightarrow> (Photon list \<times> 's, Vec3f \<times> Ray \<times> 's \<times> Photon list) LoopStep" where
  "globalBounce env k throughput ray s photons =
     (if nanOrNegative throughput then Break (photons, s)
      else
        (case intersect env ray of
           Some info \<Rightarrow>
             (let bxdf_type = getBxDFType env (hitPrimitive info);
                  photons1 =
                    (if bxdf_type = DIFFUSE
                     then photons @ [Photon throughput (position (surfaceInfo info))
                                       (- direction ray)]
                     else photons)
              in case russianRoulette env k throughput s of
                   (None, s1) \<Rightarrow> Break (photons1, s1)
                 | (Some throughput1, s1) \<Rightarrow>
                     (case scatterPhoton env throughput1 ray info s1 of
                        (throughput2, ray2, s2) \<Rightarrow> Continue (throughput2, ray2, s2, photons1)))
         | None \<Rightarrow> Break (photons, s)))"

function traceGlobalPhoton ::
  "('p, 'l, 's) Env \<Rightarrow> int \<Rightarrow> int \<Rightarrow> Vec3f \<Rightarrow> Ray \<Rightarrow> 's \<Rightarrow> Photon list
     \<Rightarrow> Photon list \<times> 's" where
  "traceGlobalPhoton env maxDepth' k throughput ray s photons =
     (if k < maxDepth'
      then
        (case globalBounce env k throughput ray s photons of
           Break r \<Rightarrow> r
         | Continue (throughput', ray', s', photons') \<Rightarrow>
             traceGlobalPhoton env maxDepth' (k + 1) throughput' ray' s' photons')
      else (photons, s))"
  by pat_completeness auto
termination
  by (relation "measure (\<lambda>(env, maxDepth', k, throughput, ray, s, photons).
                          nat (maxDepth' - k))") auto

text \<open>The body of the bounce loop of the caustics pass.\<close>

definition causticsBounce ::
  "('p, 'l, 's) Env \<Rightarrow> int \<Rightarrow> Vec3f \<Rightarrow> Ray \<Rightarrow> bool \<Rightarrow> 's \<Rightarrow> Photon list
     \<Rightarrow> (Photon list \<times> 's, Vec3f \<times> Ray \<times> bool \<times> 's \<times> Photon list) LoopStep" where
  "causticsBounce env k throughput ray prev_specular s photons =
     (if nanOrNegative throughput then Break (photons, s)
      else
        (case intersect env ray of
           Some info \<Rightarrow>
             (let bxdf_type = getBxDFType env (hitPrimitive info)
              in if \<not> prev_specular \<and> bxdf_type = DIFFUSE then Break (photons, s)
                 else if prev_specular \<and> bxdf_type = DIFFUSE
                 then Break (photons @ [Photon throughput (position (surfaceInfo info))
                                          (- direction ray)], s)
                 else
                   (let prev_specular1 = (bxdf_type = SPECULAR)
                    in case russianRoulette env k throughput s of
                         (None, s1) \<Rightarrow> Break (photons, s1)
                       | (Some throughput1, s1) \<Rightarrow>
                           (case scatterPhoton env throughput1 ray info s1 of
                              (throughput2, ray2, s2) \<Rightarrow>
                                Continue (throughput2, ray2, prev_specular1, s2, photons))))
         | None \<Rightarrow> Break (photons, s)))"

function traceCausticsPhoton ::
  "('p, 'l, 's) Env \<Rightarrow> int \<Rightarrow> int \<Rightarrow> Vec3f \<Rightarrow> Ray \<Rightarrow> bool \<Rightarrow> 's \<Rightarrow> Photon list
     \<Rightarrow> Photon list \<times> 's" where
  "traceCausticsPhoton env maxDepth' k throughput ray prev_specular s photons =
     (if k < maxDepth'
      then
        (case causticsBounce env k throughput ray prev_specular s photons of
           Break r \<Rightarrow> r
         | Continue (throughput', ray', prev_specular', s', photons') \<Rightarrow>
             traceCausticsPhoton env maxDepth' (k + 1) throughput' ray' prev_specular' s' photons')
      else (photons, s))"
  by pat_completeness auto
termination
  by (relation "measure (\<lambda>(env, maxDepth', k, throughput, ray, prev_specular, s, photons).
                          nat (maxDepth' - k))") auto

text \<open>
  The iterations over the photons. The source runs them under \<^verbatim>\<open>#pragma omp parallel for\<close>,
  each thread with its own sampler, and appends to the shared vector inside a critical
  section. The model runs the iterations in order on one thread: thread 0, whose sampler
  is the clone of the given one with the seed \<^verbatim>\<open>getSeed() * (0 + 1)\<close>. With more threads
  every iteration still runs the same body, started on the sampler of its thread.
\<close>

function globalPhotonLoop ::
  "('p, 'l, 's) Env \<Rightarrow> PhotonMapping \<Rightarrow> int \<Rightarrow> 's \<Rightarrow> Photon list \<Rightarrow> Photon list \<times> 's" where
  "globalPhotonLoop env pm i s photons =
     (if i < nPhotonsGlobal pm
      then
        (case sampleRayFromLight env s of
           ((ray, throughput), s1) \<Rightarrow>
             (case traceGlobalPhoton env (maxDepth pm) 0 throughput ray s1 photons of
                (photons', s2) \<Rightarrow> globalPhotonLoop env pm (i + 1) s2 photons'))
      else (photons, s))"
  by pat_completeness auto
termination
  by (relation "measure (\<lambda>(env, pm, i, s, photons). nat (nPhotonsGlobal pm - i))") auto

function causticsPhotonLoop ::
  "('p, 'l, 's) Env \<Rightarrow> PhotonMapping \<Rightarrow> int \<Rightarrow> 's \<Rightarrow> Photon list \<Rightarrow> Photon list \<times> 's" where
  "causticsPhotonLoop env pm i s photons =
     (if i < nPhotonsCaustics pm
      then
        (case sampleRayFromLight env s of
           ((ray, throughput), s1) \<Rightarrow>
             (case traceCausticsPhoton env (maxDepth pm) 0 throughput ray False s1 photons of
                (photons', s2) \<Rightarrow> causticsPhotonLoop env pm (i + 1) s2 photons'))
      else (photons, s))"
  by pat_completeness auto
termination
  by (relation "measure (\<lambda>(env, pm, i, s, photons). nat (nPhotonsCaustics pm - i))") auto

definition build :: "('p, 'l, 's) Env \<Rightarrow> PhotonMapping \<Rightarrow> 's \<Rightarrow> PhotonMapping" where
  "build env pm sampler =
     (let sampler0 = setSeed env sampler (getSeed env sampler * (0 + 1))
      in case globalPhotonLoop env pm 0 sampler0 [] of
           (photons, s1) \<Rightarrow>
             (let pm1 = pm\<lparr>globalPhotonMap := photons\<rparr>
              in if finalGatheringDepth pm > 0
                 then
                   (case causticsPhotonLoop env pm1 0 s1 [] of
                      (photons', s2) \<Rightarrow> pm1\<lparr>causticsPhotonMap := photons'\<rparr>)
                 else pm1))"

section \<open>The main program\<close>

text \<open>
  \<^verbatim>\<open>atoi\<close> of the C library skips white space, reads an optional sign and then decimal
  digits up to the first character that is not a digit; without digits the value is 0.
  A value outside \<^verbatim>\<open>int\<close> is undefined in C; the model computes it without a bound.
\<close>

definition isspace :: "char \<Rightarrow> bool" where
  "isspace c = (c \<in> set [CHR '' '', CHR 0x09, CHR 0x0A, CHR 0x0B, CHR 0x0C, CHR 0x0D])"

definition isdigit :: "char \<Rightarrow> bool" where
  "isdigit c = (c \<in> set ''0123456789'')"

fun atoi_digits :: "string \<Rightarrow> int \<Rightarrow> int" where
  "atoi_digits [] acc = acc"
| "atoi_digits (c # cs) acc =
     (if isdigit c then atoi_digits cs (acc * 10 + (of_char c - 48)) else acc)"

definition atoi :: "string \<Rightarrow> int" where
  "atoi str =
     (case dropWhile isspace str of
        [] \<Rightarrow> 0
      | c # cs \<Rightarrow>
          if c = CHR ''-'' then - atoi_digits cs 0
          else if c = CHR ''+'' then atoi_digits cs 0
          else atoi_digits (c # cs) 0)"

record Args =
  width :: int
  height :: int
  n_samples :: int
  n_photons :: int
  n_estimation_global :: int
  n_photons_caustics_multiplier :: float
  n_estimation_caustics :: int
  final_gathering_depth :: int
  max_depth :: int

text \<open>
  \<open>c\<close> is \<^verbatim>\<open>argv\<close>, the program name first. The source reads \<^verbatim>\<open>c[1]\<close> to \<^verbatim>\<open>c[9]\<close>
  without a check; with fewer arguments that is undefined, \<open>None\<close> here. The sixth
  argument is read with \<^verbatim>\<open>atoi\<close> and the resulting \<^verbatim>\<open>int\<close> initialises a float.
\<close>

definition parseArgs :: "string list \<Rightarrow> Args option" where
  "parseArgs c =
     (if length c < 10 then None
      else Some \<lparr>width = atoi (c ! 1),
                 height = atoi (c ! 2),
                 n_samples = atoi (c ! 3),
                 n_photons = atoi (c ! 4),
                 n_estimation_global = atoi (c ! 5),
                 n_photons_caustics_multiplier = int_to_float (atoi (c ! 6)),
                 n_estimation_caustics = atoi (c ! 7),
                 final_gathering_depth = atoi (c ! 8),
                 max_depth = atoi (c ! 9)\<rparr>)"

definition main_integrator :: "Args \<Rightarrow> PhotonMapping" where
  "main_integrator a =
     PhotonMapping_ctor (n_photons a) (n_estimation_global a)
       (n_photons_caustics_multiplier a) (n_estimation_caustics a)
       (final_gathering_depth a) (max_depth a)"





section \<open>The density estimator in the spec's words\<close>

text \<open>
  The shared primitive of the spec: query the store for the \<open>k\<close> nearest photons to the
  hit position, accumulate \<open>f(wo, photon.wi, hit, FROM_CAMERA) * photon.power\<close> over the
  returned photons in their order, divide by \<open>N_pass * pi * r\<^sup>2\<close> if any photon was
  returned, and return 0 if none was.
\<close>

definition densityEstimate ::
  "('p, 'l, 's) Env \<Rightarrow> PhotonMap \<Rightarrow> int \<Rightarrow> int \<Rightarrow> Vec3f \<Rightarrow> 'p IntersectInfo \<Rightarrow> Vec3f" where
  "densityEstimate env store k N_pass wo hit =
     (case queryKNearestPhotons env store (position (surfaceInfo hit)) k of
        (indices, r2) \<Rightarrow>
          if indices = [] then 0
          else vdiv (foldl (+) 0
                       (map (\<lambda>i. evaluateBxDF env (hitPrimitive hit) wo
                                    (p_wi (getIthPhoton store i)) (surfaceInfo hit) FROM_CAMERA
                                  * p_throughput (getIthPhoton store i)) indices))
                 (int_to_float N_pass * PI * r2))"

text \<open>
  Modelled from the spec: photon_map.h is not among the sources. The query of the spec
  returns the indices of the \<open>k\<close> photons nearest to the query point and the squared
  distance to the farthest of them; with fewer than \<open>k\<close> photons it returns all of them,
  and on an empty store no index and the squared distance 0. Ties are broken by
  position in the store.
\<close>

definition dist2 :: "Vec3f \<Rightarrow> Vec3f \<Rightarrow> float" where
  "dist2 a b = dot (a - b) (a - b)"

fun insert_by_dist :: "float \<times> int \<Rightarrow> (float \<times> int) list \<Rightarrow> (float \<times> int) list" where
  "insert_by_dist x [] = [x]"
| "insert_by_dist x (y # ys) =
     (if fst x < fst y then x # y # ys else y # insert_by_dist x ys)"

definition knn :: "Photon list \<Rightarrow> Vec3f \<Rightarrow> int \<Rightarrow> int list \<times> float" where
  "knn photons q k =
     (let cand = map (\<lambda>(i, p). (dist2 (p_position p) q, int i)) (enumerate 0 photons);
          nearest = take (nat k) (foldr insert_by_dist cand [])
      in (map snd nearest, fold (\<lambda>d m. std_max m d) (map fst nearest) (Fin 0)))"

section \<open>A test scene\<close>

text \<open>
  A scene small enough to run the definitions by hand: a diffuse floor below, a lamp
  above and a pane of glass to the side, told apart by the direction of the ray. The
  sampler state counts the variates drawn, and every variate is one half.
\<close>

datatype Prim = Floor | Glass | Lamp

definition v3 :: "real \<Rightarrow> real \<Rightarrow> real \<Rightarrow> Vec3f" where
  "v3 a b c = Vec3f (Fin a) (Fin b) (Fin c)"

definition floorHit :: "Prim IntersectInfo" where
  "floorHit = \<lparr>surfaceInfo = \<lparr>position = v3 0 0 0, shadingNormal = v3 0 1 0,
                               geometricNormal = v3 0 1 0\<rparr>,
               hitPrimitive = Floor\<rparr>"

definition glassHit :: "Prim IntersectInfo" where
  "glassHit = \<lparr>surfaceInfo = \<lparr>position = v3 1 1 0, shadingNormal = v3 (-1) (-1) 0,
                               geometricNormal = v3 (-1) (-2) 0\<rparr>,
               hitPrimitive = Glass\<rparr>"

definition lampHit :: "Prim IntersectInfo" where
  "lampHit = \<lparr>surfaceInfo = \<lparr>position = v3 0 2 0, shadingNormal = v3 0 (-1) 0,
                              geometricNormal = v3 0 (-1) 0\<rparr>,
              hitPrimitive = Lamp\<rparr>"

definition testScene :: "(Prim, unit, int) Env" where
  "testScene =
     \<lparr>intersect = (\<lambda>ray.
        if direction ray = v3 0 (-1) 0 then Some floorHit
        else if direction ray = v3 1 0 0 then Some glassHit
        else if direction ray = v3 0 1 0 \<and> Fin 2 \<le> tmax ray then Some lampHit
        else None),
      hasAreaLight = (\<lambda>p. p = Lamp),
      Le_primitive = (\<lambda>p surf wo. if p = Lamp then v3 8 8 8 else v3 0 0 0),
      getBxDFType = (\<lambda>p. if p = Glass then SPECULAR else DIFFUSE),
      evaluateBxDF = (\<lambda>p wo wi surf td. if p = Glass then v3 0 0 0 else v3 (1/2) (1/2) (1/2)),
      sampleBxDF = (\<lambda>p wo surf td s.
        if p = Glass then ((v3 1 1 1, v3 0 (-1) 0, Fin 1), s + 1)
        else ((v3 (1/2) (1/2) (1/2), v3 0 1 0, Fin (1/2)), s + 2)),
      sampleAllBxDF = (\<lambda>p wo surf td.
        if p = Glass then [(v3 0 (-1) 0, v3 (1/4) (1/4) (1/4)), (v3 0 1 0, v3 (3/4) (3/4) (3/4))]
        else []),
      sampleLight = (\<lambda>s. (((), Fin 1), s + 1)),
      samplePoint = (\<lambda>l s. ((surfaceInfo lampHit, Fin 1), s + 2)),
      sampleDirection = (\<lambda>l surf s. ((v3 0 (-1) 0, Fin 1), s + 2)),
      Le_light = (\<lambda>l surf dir. v3 8 8 8),
      getNext1D = (\<lambda>s. (Fin (1/2), s + 1)),
      getSeed = (\<lambda>s. s),
      setSeed = (\<lambda>s seed. seed),
      UniformSampler = (\<lambda>seed. seed),
      camera_sampleRay = (\<lambda>u v.
        Some (\<lparr>origin = v3 0 1 0, direction = v3 0 (-1) 0, tmax = Fin 1000\<rparr>, Fin 1)),
      queryKNearestPhotons = knn,
      RAY_EPS = Fin (1/8),
      RAY_TMAX = Fin 1000\<rparr>"

text \<open>
  An integrator for the test scene after its photon passes: 4 photons traced per pass,
  estimation counts 1 (global) and 2 (caustics), final gathering below depth 1, paths
  of at most 5 bounces; each map holds two photons that lie on the floor at the
  distances 1 and 2 from the point where the test rays hit it.
\<close>

definition testPhotons :: "Photon list" where
  "testPhotons = [Photon (v3 4 4 4) (v3 1 0 0) (v3 0 1 0),
                  Photon (v3 8 8 8) (v3 2 0 0) (v3 0 1 0)]"

definition testIntegrator :: PhotonMapping where
  "testIntegrator =
     (PhotonMapping_ctor 4 1 (Fin 1) 2 1 5)
       \<lparr>globalPhotonMap := testPhotons, causticsPhotonMap := testPhotons\<rparr>"

text \<open>The same scene with every surface diffuse.\<close>

definition diffuseScene :: "(Prim, unit, int) Env" where
  "diffuseScene = testScene\<lparr>getBxDFType := (\<lambda>p. DIFFUSE)\<rparr>"

text \<open>
  The same scene with the lamp on the side wall, shining into the glass: the sampled
  point of the light is \<open>(0, 1, 0)\<close> with normal \<open>(1, 0, 0)\<close>, and the sampled
  direction is along the normal.
\<close>

definition causticScene :: "(Prim, unit, int) Env" where
  "causticScene =
     testScene\<lparr>samplePoint := (\<lambda>l s.
                   ((\<lparr>position = v3 0 1 0, shadingNormal = v3 1 0 0,
                      geometricNormal = v3 1 0 0\<rparr>, Fin 1), s + 2)),
                 sampleDirection := (\<lambda>l surf s. ((v3 1 0 0, Fin 1), s + 2))\<rparr>"

section \<open>Evaluation rules\<close>

declare integrateRecursive.simps [simp del]
declare computeIndirectIlluminationRecursive.simps [simp del]
declare traceGlobalPhoton.simps [simp del]
declare traceCausticsPhoton.simps [simp del]
declare globalPhotonLoop.simps [simp del]
declare causticsPhotonLoop.simps [simp del]

lemma testScene_fields [simp]:
  "intersect testScene = (\<lambda>ray.
        if direction ray = v3 0 (-1) 0 then Some floorHit
        else if direction ray = v3 1 0 0 then Some glassHit
        else if direction ray = v3 0 1 0 \<and> Fin 2 \<le> tmax ray then Some lampHit
        else None)"
  "hasAreaLight testScene = (\<lambda>p. p = Lamp)"
  "Le_primitive testScene = (\<lambda>p surf wo. if p = Lamp then v3 8 8 8 else v3 0 0 0)"
  "getBxDFType testScene = (\<lambda>p. if p = Glass then SPECULAR else DIFFUSE)"
  "evaluateBxDF testScene =
     (\<lambda>p wo wi surf td. if p = Glass then v3 0 0 0 else v3 (1/2) (1/2) (1/2))"
  "sampleBxDF testScene = (\<lambda>p wo surf td s.
        if p = Glass then ((v3 1 1 1, v3 0 (-1) 0, Fin 1), s + 1)
        else ((v3 (1/2) (1/2) (1/2), v3 0 1 0, Fin (1/2)), s + 2))"
  "sampleAllBxDF testScene = (\<lambda>p wo surf td.
        if p = Glass then [(v3 0 (-1) 0, v3 (1/4) (1/4) (1/4)), (v3 0 1 0, v3 (3/4) (3/4) (3/4))]
        else [])"
  "sampleLight testScene = (\<lambda>s. (((), Fin 1), s + 1))"
  "samplePoint testScene = (\<lambda>l s. ((surfaceInfo lampHit, Fin 1), s + 2))"
  "sampleDirection testScene = (\<lambda>l surf s. ((v3 0 (-1) 0, Fin 1), s + 2))"
  "Le_light testScene = (\<lambda>l surf dir. v3 8 8 8)"
  "getNext1D testScene = (\<lambda>s. (Fin (1/2), s + 1))"
  "UniformSampler testScene = (\<lambda>seed. seed)"
  "queryKNearestPhotons testScene = knn"
  "RAY_EPS testScene = Fin (1/8)"
  "RAY_TMAX testScene = Fin 1000"
  by (simp_all add: testScene_def)

lemma Fin_minus [simp]: "Fin a - Fin b = Fin (a - b)"
  by (simp add: minus_float_def)

lemma testIntegrator_fields [simp]:
  "nPhotonsGlobal testIntegrator = 4"
  "nEstimationGlobal testIntegrator = 1"
  "nPhotonsCaustics testIntegrator = 4"
  "nEstimationCaustics testIntegrator = 2"
  "finalGatheringDepth testIntegrator = 1"
  "maxDepth testIntegrator = 5"
  "globalPhotonMap testIntegrator = testPhotons"
  "causticsPhotonMap testIntegrator = testPhotons"
  by (simp_all add: testIntegrator_def PhotonMapping_ctor_def int_to_float_def)

lemma knn_testPhotons_1: "knn testPhotons (v3 0 0 0) 1 = ([0], Fin 1)"
  by (simp add: knn_def testPhotons_def v3_def dist2_def Let_def std_max_def)

lemma knn_testPhotons_2: "knn testPhotons (v3 0 0 0) 2 = ([0, 1], Fin 4)"
  by (simp add: knn_def testPhotons_def v3_def dist2_def Let_def std_max_def)

lemma knn_empty: "knn [] q k = ([], Fin 0)"
  by (simp add: knn_def)

section \<open>Density estimation: the code against the spec's estimator\<close>

text \<open>The loop \<^verbatim>\<open>Lo += f * photon.throughput\<close> is the sum from the left, starting at 0.\<close>

lemma fold_plus_foldl:
  "fold (\<lambda>x acc. acc + g x) xs (a::Vec3f) = foldl (+) a (map g xs)"
  by (induction xs arbitrary: a) simp_all

lemma computeRadiance_densityEstimate:
  "computeRadianceWithPhotonMap env pm wo info =
     densityEstimate env (globalPhotonMap pm) (nEstimationGlobal pm) (nPhotonsGlobal pm) wo info"
  by (simp add: computeRadianceWithPhotonMap_def densityEstimate_def Let_def fold_plus_foldl
        split: prod.splits)

lemma computeCaustics_densityEstimate:
  "computeCausticsWithPhotonMap env pm wo info =
     densityEstimate env (causticsPhotonMap pm) (nEstimationGlobal pm) (nPhotonsCaustics pm)
       wo info"
  by (simp add: computeCausticsWithPhotonMap_def densityEstimate_def Let_def fold_plus_foldl
        split: prod.splits)

lemma densityEstimate_test_1:
  "densityEstimate testScene testPhotons 1 4 wo floorHit
     = v3 (1 / (2 * pi)) (1 / (2 * pi)) (1 / (2 * pi))"
  unfolding densityEstimate_def floorHit_def
  by (simp add: knn_testPhotons_1)
     (simp add: getIthPhoton_def int_to_float_def v3_def zero_Vec3f_def testPhotons_def PI_def)

lemma densityEstimate_test_2:
  "densityEstimate testScene testPhotons 2 4 wo floorHit
     = v3 (3 / (8 * pi)) (3 / (8 * pi)) (3 / (8 * pi))"
  unfolding densityEstimate_def floorHit_def
  by (simp add: knn_testPhotons_2)
     (simp add: getIthPhoton_def int_to_float_def v3_def zero_Vec3f_def testPhotons_def PI_def)

text \<open>
  C1. The claim: at a diffuse hit the caustic density estimate queries the caustic
  store for the \<open>k\<close> nearest photons with \<open>k = nEstimationCaustics\<close> and divides the sum
  by \<open>nPhotonsCaustics * pi * r\<^sup>2\<close>. The code passes \<open>nEstimationGlobal\<close> to the query. In
  the test scene, with \<open>nEstimationGlobal = 1\<close>, \<open>nEstimationCaustics = 2\<close> and two caustic
  photons near the hit, the code uses one photon and returns \<open>1 / (2 pi)\<close> in each
  channel, where the estimate over \<open>nEstimationCaustics\<close> photons is \<open>3 / (8 pi)\<close>.
\<close>

theorem caustics_query_uses_global_count:
  "nEstimationGlobal testIntegrator = 1 \<and> nEstimationCaustics testIntegrator = 2
   \<and> computeCausticsWithPhotonMap testScene testIntegrator (v3 0 1 0) floorHit
       = v3 (1 / (2 * pi)) (1 / (2 * pi)) (1 / (2 * pi))
   \<and> densityEstimate testScene (causticsPhotonMap testIntegrator)
        (nEstimationCaustics testIntegrator) (nPhotonsCaustics testIntegrator)
        (v3 0 1 0) floorHit
       = v3 (3 / (8 * pi)) (3 / (8 * pi)) (3 / (8 * pi))
   \<and> computeCausticsWithPhotonMap testScene testIntegrator (v3 0 1 0) floorHit
       \<noteq> densityEstimate testScene (causticsPhotonMap testIntegrator)
           (nEstimationCaustics testIntegrator) (nPhotonsCaustics testIntegrator)
           (v3 0 1 0) floorHit"
  by (simp add: computeCaustics_densityEstimate densityEstimate_test_1 densityEstimate_test_2
        v3_def divide_simps)

text \<open>
  C4. Both density estimators are the estimator of the spec: over the results of the
  k-nearest-neighbour query they accumulate \<open>f(wo, photon.wi, hit, FROM_CAMERA) *
  photon.power\<close>; when at least one photon is returned the sum is divided by \<open>N_pass * pi *
  r\<^sup>2\<close>, where \<open>N_pass\<close> is the number of photons traced in the pass that built the map
  (\<open>nPhotonsGlobal\<close>, \<open>nPhotonsCaustics\<close>) and not the number of photons returned; when
  none is returned the result is 0.
\<close>

theorem density_estimators:
  "computeRadianceWithPhotonMap env pm wo info =
     densityEstimate env (globalPhotonMap pm) (nEstimationGlobal pm) (nPhotonsGlobal pm) wo info
   \<and> computeCausticsWithPhotonMap env pm wo info =
     densityEstimate env (causticsPhotonMap pm) (nEstimationGlobal pm) (nPhotonsCaustics pm)
       wo info
   \<and> (\<forall>store k N_pass indices r2.
         queryKNearestPhotons env store (position (surfaceInfo info)) k = (indices, r2) \<longrightarrow>
         densityEstimate env store k N_pass wo info =
           (if indices = [] then 0
            else vdiv (foldl (+) 0
                         (map (\<lambda>i. evaluateBxDF env (hitPrimitive info) wo
                                      (p_wi (getIthPhoton store i)) (surfaceInfo info)
                                      FROM_CAMERA
                                    * p_throughput (getIthPhoton store i)) indices))
                   (int_to_float N_pass * PI * r2)))"
  by (simp add: computeRadiance_densityEstimate computeCaustics_densityEstimate
        densityEstimate_def)

text \<open>
  In the test scene the global estimate at the floor uses one photon of the two in the
  map and divides its contribution \<open>(2, 2, 2)\<close> by \<open>4 * pi * 1\<close>, 4 being the number of
  photons traced; with an empty caustics map the caustic estimate is 0.
\<close>

theorem density_estimators_witness:
  "computeRadianceWithPhotonMap testScene testIntegrator (v3 0 1 0) floorHit
     = vdiv (v3 2 2 2) (Fin 4 * PI * Fin 1)
   \<and> computeCausticsWithPhotonMap testScene
        (testIntegrator\<lparr>causticsPhotonMap := []\<rparr>) (v3 0 1 0) floorHit = 0"
proof -
  have q1: "queryKNearestPhotons testScene testPhotons (position (surfaceInfo floorHit)) 1
              = ([0], Fin 1)"
    by (simp add: knn_testPhotons_1 floorHit_def)
  have q2: "queryKNearestPhotons testScene [] (position (surfaceInfo floorHit)) 1 = ([], Fin 0)"
    by (simp add: knn_empty)
  have a: "foldl (+) 0
             (map (\<lambda>i. evaluateBxDF testScene (hitPrimitive floorHit) (v3 0 1 0)
                          (p_wi (getIthPhoton testPhotons i)) (surfaceInfo floorHit) FROM_CAMERA
                        * p_throughput (getIthPhoton testPhotons i)) [0])
           = v3 2 2 2"
    by (simp add: floorHit_def getIthPhoton_def testPhotons_def v3_def zero_Vec3f_def)
  from density_estimators [of testScene testIntegrator "v3 0 1 0" floorHit]
  have g: "computeRadianceWithPhotonMap testScene testIntegrator (v3 0 1 0) floorHit
             = densityEstimate testScene testPhotons 1 4 (v3 0 1 0) floorHit"
    and d: "\<And>store k N_pass indices r2.
         queryKNearestPhotons testScene store (position (surfaceInfo floorHit)) k = (indices, r2)
         \<Longrightarrow> densityEstimate testScene store k N_pass (v3 0 1 0) floorHit =
           (if indices = [] then 0
            else vdiv (foldl (+) 0
                         (map (\<lambda>i. evaluateBxDF testScene (hitPrimitive floorHit) (v3 0 1 0)
                                      (p_wi (getIthPhoton store i)) (surfaceInfo floorHit)
                                      FROM_CAMERA
                                    * p_throughput (getIthPhoton store i)) indices))
                   (int_to_float N_pass * PI * r2))"
    by simp_all
  from density_estimators [of testScene "testIntegrator\<lparr>causticsPhotonMap := []\<rparr>"
         "v3 0 1 0" floorHit]
  have c: "computeCausticsWithPhotonMap testScene (testIntegrator\<lparr>causticsPhotonMap := []\<rparr>)
             (v3 0 1 0) floorHit
             = densityEstimate testScene [] 1 4 (v3 0 1 0) floorHit"
    by simp
  show ?thesis
    using g c d [OF q1, of 4] d [OF q2, of 4] a by (simp add: int_to_float_def)
qed

section \<open>The cosine term\<close>

text \<open>
  C3. For all directions \<open>wo\<close> and \<open>wi\<close> and all surfaces, \<open>cosTerm\<close> returns 0 whenever
  \<open>(wi \<cdot> n_geom) * (wi \<cdot> n_shading) \<le> 0\<close> or \<open>(wo \<cdot> n_geom) * (wo \<cdot> n_shading) \<le> 0\<close>;
  otherwise it returns \<open>|wi \<cdot> n_shading|\<close> for FROM_CAMERA and
  \<open>|wo \<cdot> n_shading| * |wi \<cdot> n_geom| / |wo \<cdot> n_geom|\<close> for FROM_LIGHT.
\<close>

theorem cosTerm_cases:
  "(dot wi (geometricNormal surf) * dot wi (shadingNormal surf) \<le> Fin 0
      \<or> dot wo (geometricNormal surf) * dot wo (shadingNormal surf) \<le> Fin 0
    \<longrightarrow> cosTerm wo wi surf transport_dir = Fin 0)
   \<and> (\<not> dot wi (geometricNormal surf) * dot wi (shadingNormal surf) \<le> Fin 0
      \<and> \<not> dot wo (geometricNormal surf) * dot wo (shadingNormal surf) \<le> Fin 0
    \<longrightarrow> cosTerm wo wi surf FROM_CAMERA = \<bar>dot wi (shadingNormal surf)\<bar>
      \<and> cosTerm wo wi surf FROM_LIGHT =
          \<bar>dot wo (shadingNormal surf)\<bar> * \<bar>dot wi (geometricNormal surf)\<bar>
            / \<bar>dot wo (geometricNormal surf)\<bar>)"
  by (simp add: cosTerm_def Let_def)

text \<open>
  A direction that leaks through the surface (the two normals disagree about the side
  of \<open>wi\<close>) gives 0; with both directions on the side of both normals the two transport
  directions give the two formulas, here both with the value 2.
\<close>

theorem cosTerm_cases_witness:
  "cosTerm (v3 0 4 0) (v3 1 1 0)
     \<lparr>position = v3 0 0 0, shadingNormal = v3 0 1 0, geometricNormal = v3 (-1) 0 0\<rparr>
     FROM_LIGHT = Fin 0
   \<and> cosTerm (v3 0 4 0) (v3 0 2 0)
     \<lparr>position = v3 0 0 0, shadingNormal = v3 0 1 0, geometricNormal = v3 0 2 0\<rparr>
     FROM_CAMERA = Fin 2
   \<and> cosTerm (v3 0 4 0) (v3 0 2 0)
     \<lparr>position = v3 0 0 0, shadingNormal = v3 0 1 0, geometricNormal = v3 0 2 0\<rparr>
     FROM_LIGHT = Fin 2"
  using cosTerm_cases [of "v3 1 1 0"
          "\<lparr>position = v3 0 0 0, shadingNormal = v3 0 1 0, geometricNormal = v3 (-1) 0 0\<rparr>"
          "v3 0 4 0" FROM_LIGHT]
        cosTerm_cases [of "v3 0 2 0"
          "\<lparr>position = v3 0 0 0, shadingNormal = v3 0 1 0, geometricNormal = v3 0 2 0\<rparr>"
          "v3 0 4 0" FROM_CAMERA]
  by (simp add: v3_def)

section \<open>The camera pass\<close>

text \<open>
  C7. For every camera ray and depth, the recursive radiance estimator returns 0 when
  \<open>depth \<ge> maxDepth\<close>, returns 0 when the ray misses the scene, and on a hit of an emitter
  (below the maximal depth) returns \<open>Le(surface, -ray.direction)\<close> at once: the sampler
  comes back as it went in, and the material tag of the hit has no part in the result.
\<close>

theorem integrateRecursive_base_cases:
  "(maxDepth pm \<le> depth \<longrightarrow> integrateRecursive env pm ray s depth = (0, s))
   \<and> (intersect env ray = None \<longrightarrow> integrateRecursive env pm ray s depth = (0, s))
   \<and> (\<forall>info. depth < maxDepth pm \<and> intersect env ray = Some info
              \<and> hasAreaLight env (hitPrimitive info)
        \<longrightarrow> integrateRecursive env pm ray s depth =
              (Le_primitive env (hitPrimitive info) (surfaceInfo info) (- direction ray), s))"
  by (simp add: integrateRecursive.simps [of env pm ray s depth])

text \<open>
  In the test scene with \<open>maxDepth = 5\<close>: a ray at depth 5, a ray that misses, and a ray
  that hits the lamp.
\<close>

theorem integrateRecursive_base_cases_witness:
  "integrateRecursive testScene (PhotonMapping_ctor 4 2 (Fin 1) 1 1 5)
     \<lparr>origin = v3 0 1 0, direction = v3 0 (-1) 0, tmax = Fin 1000\<rparr> 7 5 = (0, 7)
   \<and> integrateRecursive testScene (PhotonMapping_ctor 4 2 (Fin 1) 1 1 5)
     \<lparr>origin = v3 0 1 0, direction = v3 0 0 1, tmax = Fin 1000\<rparr> 7 0 = (0, 7)
   \<and> integrateRecursive testScene (PhotonMapping_ctor 4 2 (Fin 1) 1 1 5)
     \<lparr>origin = v3 0 1 0, direction = v3 0 1 0, tmax = Fin 1000\<rparr> 7 0 = (v3 8 8 8, 7)"
  using integrateRecursive_base_cases [of "PhotonMapping_ctor 4 2 (Fin 1) 1 1 5" 5 testScene
          "\<lparr>origin = v3 0 1 0, direction = v3 0 (-1) 0, tmax = Fin 1000\<rparr>" 7]
        integrateRecursive_base_cases [of "PhotonMapping_ctor 4 2 (Fin 1) 1 1 5" 0 testScene
          "\<lparr>origin = v3 0 1 0, direction = v3 0 0 1, tmax = Fin 1000\<rparr>" 7]
        integrateRecursive_base_cases [of "PhotonMapping_ctor 4 2 (Fin 1) 1 1 5" 0 testScene
          "\<lparr>origin = v3 0 1 0, direction = v3 0 1 0, tmax = Fin 1000\<rparr>" 7]
  by (simp add: PhotonMapping_ctor_def v3_def lampHit_def)

text \<open>
  C8. At a specular hit in the camera pass (below the maximal depth, not an emitter):
  at depth 3 or more the estimator samples one direction and returns the radiance
  along it times \<open>f * cosTerm(FROM_CAMERA) / pdf_dir\<close>; at a depth below 3 it goes through
  all direction pairs of \<open>sampleAllBxDF\<close> in order and sums the radiance along each
  direction times \<open>f * |wi \<cdot> n_shading|\<close>, with neither \<open>cosTerm\<close> nor a division by a
  pdf.
\<close>

theorem integrateRecursive_specular:
  assumes "depth < maxDepth pm" and "intersect env ray = Some info"
    and "\<not> hasAreaLight env (hitPrimitive info)"
    and "getBxDFType env (hitPrimitive info) = SPECULAR"
  shows "(3 \<le> depth \<longrightarrow>
            integrateRecursive env pm ray s depth =
              (case sampleBxDF env (hitPrimitive info) (- direction ray) (surfaceInfo info)
                      FROM_CAMERA s of
                 ((f, dir, pdf_dir), s1) \<Rightarrow>
                   (case integrateRecursive env pm
                           (Ray_ctor env (position (surfaceInfo info)) dir) s1 (depth + 1) of
                      (L, s2) \<Rightarrow>
                        (vdiv (vscale f (cosTerm (- direction ray) dir (surfaceInfo info)
                                           FROM_CAMERA)) pdf_dir * L, s2))))
       \<and> (depth < 3 \<longrightarrow>
            integrateRecursive env pm ray s depth =
              fold (\<lambda>(dir, f) (Lo, s').
                      case integrateRecursive env pm
                             (Ray_ctor env (position (surfaceInfo info)) dir) s' (depth + 1) of
                        (L, s'') \<Rightarrow>
                          (Lo + vscale f \<bar>dot dir (shadingNormal (surfaceInfo info))\<bar> * L, s''))
                (sampleAllBxDF env (hitPrimitive info) (- direction ray) (surfaceInfo info)
                   FROM_CAMERA)
                (0, s))"
  using assms
  by (simp add: integrateRecursive.simps [of env pm ray s depth] Let_def case_prod_unfold)

lemma integrateRecursive_test_floor:
  "1 \<le> depth \<Longrightarrow> depth < 5 \<Longrightarrow>
   integrateRecursive testScene testIntegrator
     \<lparr>origin = v3 1 1 0, direction = v3 0 (-1) 0, tmax = Fin 1000\<rparr> s depth
     = (v3 (1 / (2 * pi)) (1 / (2 * pi)) (1 / (2 * pi)), s)"
  by (simp add: integrateRecursive.simps [of testScene testIntegrator _ s depth]
        computeRadiance_densityEstimate densityEstimate_test_1)
     (simp add: floorHit_def)

lemma integrateRecursive_test_lamp:
  "depth < 5 \<Longrightarrow>
   integrateRecursive testScene testIntegrator
     \<lparr>origin = v3 1 1 0, direction = v3 0 1 0, tmax = Fin 1000\<rparr> s depth
     = (v3 8 8 8, s)"
  by (simp add: integrateRecursive.simps [of testScene testIntegrator _ s depth])
     (simp add: v3_def lampHit_def)

text \<open>
  A ray into the glass of the test scene. At depth 3 the one sampled direction goes
  down to the floor, whose global estimate is \<open>1 / (2 pi)\<close>, with weight 1, and one
  variate is drawn. At depth 0 the two pairs go down to the floor (weight \<open>1/4\<close>) and
  up to the lamp of radiance 8 (weight \<open>3/4\<close>), and no variate is drawn.
\<close>

theorem integrateRecursive_specular_witness:
  "integrateRecursive testScene testIntegrator
     \<lparr>origin = v3 0 1 0, direction = v3 1 0 0, tmax = Fin 1000\<rparr> 7 3
     = (v3 (1 / (2 * pi)) (1 / (2 * pi)) (1 / (2 * pi)), 8)
   \<and> integrateRecursive testScene testIntegrator
     \<lparr>origin = v3 0 1 0, direction = v3 1 0 0, tmax = Fin 1000\<rparr> 7 0
     = (v3 (6 + 1 / (8 * pi)) (6 + 1 / (8 * pi)) (6 + 1 / (8 * pi)), 7)"
proof -
  let ?ray = "\<lparr>origin = v3 0 1 0, direction = v3 1 0 0, tmax = Fin 1000\<rparr>"
  have h: "intersect testScene ?ray = Some glassHit"
    by (simp add: v3_def)
  have a: "\<not> hasAreaLight testScene (hitPrimitive glassHit)"
    by (simp add: glassHit_def)
  have b: "getBxDFType testScene (hitPrimitive glassHit) = SPECULAR"
    by (simp add: glassHit_def)
  have c: "cosTerm (- direction ?ray) (v3 0 (-1) 0) (surfaceInfo glassHit) FROM_CAMERA = Fin 1"
    by (simp add: cosTerm_def glassHit_def v3_def)
  have deep: "integrateRecursive testScene testIntegrator ?ray 7 3
                = (v3 (1 / (2 * pi)) (1 / (2 * pi)) (1 / (2 * pi)), 8)"
    using integrateRecursive_specular [of 3 testIntegrator testScene ?ray glassHit 7] h a b c
          integrateRecursive_test_floor [of 4 8]
    by (simp add: glassHit_def Ray_ctor_def) (simp add: v3_def)
  have shallow: "integrateRecursive testScene testIntegrator ?ray 7 0
                = (v3 (6 + 1 / (8 * pi)) (6 + 1 / (8 * pi)) (6 + 1 / (8 * pi)), 7)"
    using integrateRecursive_specular [of 0 testIntegrator testScene ?ray glassHit 7] h a b
          integrateRecursive_test_floor [of 1 7] integrateRecursive_test_lamp [of 1 7]
    by (simp add: glassHit_def Ray_ctor_def) (simp add: v3_def zero_Vec3f_def)
  show ?thesis using deep shallow by simp
qed

text \<open>
  C9. Next-event estimation at a shaded point: with \<open>wi\<close> the normalized direction to
  the sampled point of the light and \<open>r\<close> the distance, the area density \<open>p_pos\<close> becomes
  the solid-angle density \<open>p_w = p_pos * r * r / |(-wi) \<cdot> n_light|\<close>; the shadow ray starts
  at the point, runs along \<open>wi\<close> and has \<open>tmax = r - RAY_EPS\<close>; if it hits nothing the
  result is \<open>f(wo, wi, FROM_CAMERA) * |wi \<cdot> n_shading| * Le / (p_L * p_w)\<close>, and 0 otherwise.
\<close>

theorem computeDirectIllumination_nee:
  assumes "sampleLight env s = ((light, p_L), s1)"
    and "samplePoint env light s1 = ((light_surf, p_pos), s2)"
    and "wi = normalize (position light_surf - position (surfaceInfo info))"
    and "r = length_v (position light_surf - position (surfaceInfo info))"
    and "p_w = p_pos * r * r / \<bar>dot (- wi) (shadingNormal light_surf)\<bar>"
    and "ray_shadow = \<lparr>origin = position (surfaceInfo info), direction = wi,
                        tmax = r - RAY_EPS env\<rparr>"
  shows "(intersect env ray_shadow = None \<longrightarrow>
            computeDirectIllumination env wo info s =
              (vdiv (vscale (evaluateBxDF env (hitPrimitive info) wo wi (surfaceInfo info)
                               FROM_CAMERA)
                       \<bar>dot wi (shadingNormal (surfaceInfo info))\<bar>
                     * Le_light env light light_surf (- wi))
                 (p_L * p_w), s2))
       \<and> (intersect env ray_shadow \<noteq> None \<longrightarrow>
            computeDirectIllumination env wo info s = (0, s2))"
  using assms
  by (auto simp add: computeDirectIllumination_def Ray_ctor_def Let_def)

text \<open>
  From the floor of the test scene the lamp is at distance 2 straight above and the
  shadow ray, cut at \<open>2 - 1/8\<close>, reaches it unhindered: the result is \<open>(1, 1, 1)\<close>. From
  a point to the side the shadow ray runs into the glass and the result is 0.
\<close>

theorem computeDirectIllumination_nee_witness:
  "computeDirectIllumination testScene (v3 0 1 0) floorHit 7 = (v3 1 1 1, 10)
   \<and> computeDirectIllumination testScene (v3 0 1 0)
        \<lparr>surfaceInfo = \<lparr>position = v3 (-2) 2 0, shadingNormal = v3 1 0 0,
                         geometricNormal = v3 1 0 0\<rparr>, hitPrimitive = Floor\<rparr> 7 = (0, 10)"
proof -
  let ?side = "\<lparr>surfaceInfo = \<lparr>position = v3 (-2) 2 0, shadingNormal = v3 1 0 0,
                                 geometricNormal = v3 1 0 0\<rparr>, hitPrimitive = Floor\<rparr>"
  have l: "sampleLight testScene 7 = (((), Fin 1), 8)" by simp
  have p: "samplePoint testScene () 8 = ((surfaceInfo lampHit, Fin 1), 10)" by simp
  have w1: "v3 0 1 0
              = normalize (position (surfaceInfo lampHit) - position (surfaceInfo floorHit))"
    by (simp add: floorHit_def lampHit_def normalize_def length_v_def v3_def)
  have r1: "Fin 2 = length_v (position (surfaceInfo lampHit) - position (surfaceInfo floorHit))"
    by (simp add: floorHit_def lampHit_def length_v_def v3_def)
  have d1: "Fin 4
              = Fin 1 * Fin 2 * Fin 2 / \<bar>dot (- v3 0 1 0) (shadingNormal (surfaceInfo lampHit))\<bar>"
    by (simp add: lampHit_def v3_def)
  have s1: "\<lparr>origin = v3 0 0 0, direction = v3 0 1 0, tmax = Fin (15/8)\<rparr>
              = \<lparr>origin = position (surfaceInfo floorHit), direction = v3 0 1 0,
                 tmax = Fin 2 - RAY_EPS testScene\<rparr>"
    by (simp add: floorHit_def)
  have i1: "intersect testScene
              \<lparr>origin = v3 0 0 0, direction = v3 0 1 0, tmax = Fin (15/8)\<rparr> = None"
    by (simp add: v3_def)
  have w2: "v3 1 0 0 = normalize (position (surfaceInfo lampHit) - position (surfaceInfo ?side))"
    by (simp add: lampHit_def normalize_def length_v_def v3_def)
  have r2: "Fin 2 = length_v (position (surfaceInfo lampHit) - position (surfaceInfo ?side))"
    by (simp add: lampHit_def length_v_def v3_def)
  have d2: "PInf
              = Fin 1 * Fin 2 * Fin 2 / \<bar>dot (- v3 1 0 0) (shadingNormal (surfaceInfo lampHit))\<bar>"
    by (simp add: lampHit_def v3_def)
  have s2: "\<lparr>origin = v3 (-2) 2 0, direction = v3 1 0 0, tmax = Fin (15/8)\<rparr>
              = \<lparr>origin = position (surfaceInfo ?side), direction = v3 1 0 0,
                 tmax = Fin 2 - RAY_EPS testScene\<rparr>"
    by simp
  have i2: "intersect testScene
              \<lparr>origin = v3 (-2) 2 0, direction = v3 1 0 0, tmax = Fin (15/8)\<rparr> \<noteq> None"
    by (simp add: v3_def)
  have e: "vdiv (vscale (evaluateBxDF testScene (hitPrimitive floorHit) (v3 0 1 0) (v3 0 1 0)
                           (surfaceInfo floorHit) FROM_CAMERA)
                   \<bar>dot (v3 0 1 0) (shadingNormal (surfaceInfo floorHit))\<bar>
                 * Le_light testScene () (surfaceInfo lampHit) (- v3 0 1 0))
             (Fin 1 * Fin 4) = v3 1 1 1"
    by (simp add: floorHit_def v3_def)
  show ?thesis
    using computeDirectIllumination_nee [OF l p w1 r1 d1 s1, of "v3 0 1 0"]
          computeDirectIllumination_nee [OF l p w2 r2 d2 s2, of "v3 0 1 0"] i1 i2 e
    by simp
qed

section \<open>The photon passes\<close>

lemma nanOrNegative_v3 [simp]: "nanOrNegative (v3 a b c) = (a < 0 \<or> b < 0 \<or> c < 0)"
  by (simp add: nanOrNegative_def v3_def)

lemma v3_simps [simp]:
  "vx (v3 a b c) = Fin a" "vy (v3 a b c) = Fin b" "vz (v3 a b c) = Fin c"
  "- v3 a b c = v3 (- a) (- b) (- c)"
  "(v3 a b c = v3 x y z) = (a = x \<and> b = y \<and> c = z)"
  by (simp_all add: v3_def)

lemma causticScene_fields [simp]:
  "intersect causticScene = intersect testScene"
  "getBxDFType causticScene = getBxDFType testScene"
  "sampleBxDF causticScene = sampleBxDF testScene"
  "sampleLight causticScene = sampleLight testScene"
  "samplePoint causticScene = (\<lambda>l s.
     ((\<lparr>position = v3 0 1 0, shadingNormal = v3 1 0 0, geometricNormal = v3 1 0 0\<rparr>, Fin 1),
      s + 2))"
  "sampleDirection causticScene = (\<lambda>l surf s. ((v3 1 0 0, Fin 1), s + 2))"
  "Le_light causticScene = Le_light testScene"
  "getNext1D causticScene = getNext1D testScene"
  "getSeed causticScene = (\<lambda>s. s)"
  "setSeed causticScene = (\<lambda>s seed. seed)"
  "RAY_TMAX causticScene = Fin 1000"
  by (simp_all add: causticScene_def testScene_def)

lemma traceGlobalPhoton_stop:
  "\<not> k < md \<Longrightarrow> traceGlobalPhoton env md k throughput ray s photons = (photons, s)"
  by (simp add: traceGlobalPhoton.simps [of env md k throughput ray s photons])

lemma traceCausticsPhoton_stop:
  "\<not> k < md \<Longrightarrow>
   traceCausticsPhoton env md k throughput ray prev_specular s photons = (photons, s)"
  by (simp add: traceCausticsPhoton.simps [of env md k throughput ray prev_specular s photons])

lemma globalPhotonLoop_stop:
  "\<not> i < nPhotonsGlobal pm \<Longrightarrow> globalPhotonLoop env pm i s photons = (photons, s)"
  by (simp add: globalPhotonLoop.simps [of env pm i s photons])

lemma causticsPhotonLoop_stop:
  "\<not> i < nPhotonsCaustics pm \<Longrightarrow> causticsPhotonLoop env pm i s photons = (photons, s)"
  by (simp add: causticsPhotonLoop.simps [of env pm i s photons])

lemma traceGlobalPhoton_go:
  "k < md \<Longrightarrow>
   traceGlobalPhoton env md k throughput ray s photons =
     (case globalBounce env k throughput ray s photons of
        Break r \<Rightarrow> r
      | Continue (throughput', ray', s', photons') \<Rightarrow>
          traceGlobalPhoton env md (k + 1) throughput' ray' s' photons')"
  by (simp add: traceGlobalPhoton.simps [of env md k throughput ray s photons])

lemma traceCausticsPhoton_go:
  "k < md \<Longrightarrow>
   traceCausticsPhoton env md k throughput ray prev_specular s photons =
     (case causticsBounce env k throughput ray prev_specular s photons of
        Break r \<Rightarrow> r
      | Continue (throughput', ray', prev_specular', s', photons') \<Rightarrow>
          traceCausticsPhoton env md (k + 1) throughput' ray' prev_specular' s' photons')"
  by (simp add: traceCausticsPhoton.simps [of env md k throughput ray prev_specular s photons])

lemma globalPhotonLoop_go:
  "i < nPhotonsGlobal pm \<Longrightarrow>
   globalPhotonLoop env pm i s photons =
     (case sampleRayFromLight env s of
        ((ray, throughput), s1) \<Rightarrow>
          (case traceGlobalPhoton env (maxDepth pm) 0 throughput ray s1 photons of
             (photons', s2) \<Rightarrow> globalPhotonLoop env pm (i + 1) s2 photons'))"
  by (simp add: globalPhotonLoop.simps [of env pm i s photons])

lemma causticsPhotonLoop_go:
  "i < nPhotonsCaustics pm \<Longrightarrow>
   causticsPhotonLoop env pm i s photons =
     (case sampleRayFromLight env s of
        ((ray, throughput), s1) \<Rightarrow>
          (case traceCausticsPhoton env (maxDepth pm) 0 throughput ray False s1 photons of
             (photons', s2) \<Rightarrow> causticsPhotonLoop env pm (i + 1) s2 photons'))"
  by (simp add: causticsPhotonLoop.simps [of env pm i s photons])

lemma scatterPhoton_floor:
  "scatterPhoton testScene (v3 a b c)
     \<lparr>origin = org, direction = v3 0 (-1) 0, tmax = tm\<rparr> floorHit s
   = (v3 a b c, \<lparr>origin = v3 0 0 0, direction = v3 0 1 0, tmax = Fin 1000\<rparr>, s + 2)"
  by (simp add: scatterPhoton_def floorHit_def Ray_ctor_def cosTerm_def v3_def)

lemma scatterPhoton_glass:
  "scatterPhoton testScene (v3 a b c)
     \<lparr>origin = org, direction = v3 1 0 0, tmax = tm\<rparr> glassHit s
   = (v3 (a * 2) (b * 2) (c * 2),
      \<lparr>origin = v3 1 1 0, direction = v3 0 (-1) 0, tmax = Fin 1000\<rparr>, s + 1)"
  by (simp add: scatterPhoton_def glassHit_def Ray_ctor_def cosTerm_def v3_def)

lemma scatterPhoton_causticScene:
  "scatterPhoton causticScene throughput ray info s = scatterPhoton testScene throughput ray info s"
  by (simp add: scatterPhoton_def Ray_ctor_def)

lemma sampleRayFromLight_testScene:
  "sampleRayFromLight testScene s
   = ((\<lparr>origin = v3 0 2 0, direction = v3 0 (-1) 0, tmax = Fin 1000\<rparr>, v3 8 8 8), s + 5)"
  by (simp add: sampleRayFromLight_def Ray_ctor_def lampHit_def) (simp add: v3_def)

lemma sampleRayFromLight_causticScene:
  "sampleRayFromLight causticScene s
   = ((\<lparr>origin = v3 0 1 0, direction = v3 1 0 0, tmax = Fin 1000\<rparr>, v3 8 8 8), s + 5)"
  by (simp add: sampleRayFromLight_def Ray_ctor_def) (simp add: v3_def)

lemma hits_testScene [simp]:
  "intersect testScene \<lparr>origin = org, direction = v3 0 (-1) 0, tmax = tm\<rparr> = Some floorHit"
  "intersect testScene \<lparr>origin = org, direction = v3 1 0 0, tmax = tm\<rparr> = Some glassHit"
  "hitPrimitive floorHit = Floor"
  "hitPrimitive glassHit = Glass"
  "position (surfaceInfo floorHit) = v3 0 0 0"
  by (simp_all add: floorHit_def glassHit_def)

lemma vdiv_v3 [simp]: "d \<noteq> 0 \<Longrightarrow> vdiv (v3 a b c) (Fin d) = v3 (a / d) (b / d) (c / d)"
  by (simp add: v3_def)

lemma globalPhotonLoop_causticScene:
  "globalPhotonLoop causticScene (PhotonMapping_ctor 1 1 (Fin 1) 2 1 2) 0 7 []
   = ([Photon (v3 16 16 16) (v3 0 0 0) (v3 0 1 0)], 16)"
  by (simp add: globalPhotonLoop_go globalPhotonLoop_stop traceGlobalPhoton_go
        traceGlobalPhoton_stop PhotonMapping_ctor_def sampleRayFromLight_causticScene
        globalBounce_def russianRoulette_def scatterPhoton_causticScene scatterPhoton_floor
        scatterPhoton_glass std_min_def std_max_def int_to_float_def)

lemma causticsPhotonLoop_causticScene:
  "causticsPhotonLoop causticScene
     ((PhotonMapping_ctor 1 1 (Fin 1) 2 1 2)\<lparr>globalPhotonMap := g\<rparr>) 0 16 []
   = ([Photon (v3 16 16 16) (v3 0 0 0) (v3 0 1 0)], 22)"
  by (simp add: causticsPhotonLoop_go causticsPhotonLoop_stop traceCausticsPhoton_go
        traceCausticsPhoton_stop PhotonMapping_ctor_def sampleRayFromLight_causticScene
        causticsBounce_def russianRoulette_def scatterPhoton_causticScene scatterPhoton_floor
        scatterPhoton_glass std_min_def std_max_def int_to_float_def)

text \<open>
  C6. In both photon passes the Russian roulette is applied at every bounce with index
  \<open>k > 0\<close> and never at \<open>k = 0\<close>, after the deposit step, with the survival probability
  \<open>q = min(max(throughput channels), 1)\<close>. The statement is about the paths and the
  passes:
  \<^item> a path at bounce \<open>k\<close> of at most \<open>md\<close>, with a throughput that passes the test and a
    ray that hits a surface (in the caustics pass: a surface that is not diffuse, so that
    the deposit step has not ended the path). If \<open>k > 0\<close> a variate \<open>u\<close> is drawn; with
    \<open>u \<ge> q\<close> the path ends there, with the photon vector as the deposit step left it;
    otherwise the path goes on at bounce \<open>k + 1\<close> with the throughput divided by \<open>q\<close>.
    If \<open>k = 0\<close> no variate is drawn and the path goes on at bounce 1 with the throughput
    undivided.
  \<^item> every path that a pass traces starts at bounce 0 with the ray and the throughput
    sampled from the light: its first bounce has no roulette, and it goes on at bounce 1.
  \<^item> the two maps that \<open>build\<close> leaves are the photon vectors of the two passes.
  \<open>deposited\<close> is the photon vector after the deposit step of the global pass.
\<close>

theorem russian_roulette_both_passes:
  assumes "k < md" and "\<not> nanOrNegative throughput" and "intersect env ray = Some info"
    and "q = std_min (std_max (vx throughput) (std_max (vy throughput) (vz throughput)))
               (Fin 1)"
    and "getNext1D env s = (u, s1)"
    and "deposited =
           (if getBxDFType env (hitPrimitive info) = DIFFUSE
            then photons @ [Photon throughput (position (surfaceInfo info)) (- direction ray)]
            else photons)"
  shows "(0 < k \<and> q \<le> u \<longrightarrow>
            traceGlobalPhoton env md k throughput ray s photons = (deposited, s1))
       \<and> (0 < k \<and> \<not> q \<le> u \<longrightarrow>
            traceGlobalPhoton env md k throughput ray s photons =
              (case scatterPhoton env (vdiv throughput q) ray info s1 of
                 (throughput2, ray2, s2) \<Rightarrow>
                   traceGlobalPhoton env md (k + 1) throughput2 ray2 s2 deposited))
       \<and> (k = 0 \<longrightarrow>
            traceGlobalPhoton env md k throughput ray s photons =
              (case scatterPhoton env throughput ray info s of
                 (throughput2, ray2, s2) \<Rightarrow>
                   traceGlobalPhoton env md (k + 1) throughput2 ray2 s2 deposited))
       \<and> (getBxDFType env (hitPrimitive info) \<noteq> DIFFUSE \<longrightarrow>
            (0 < k \<and> q \<le> u \<longrightarrow>
               traceCausticsPhoton env md k throughput ray prev_specular s photons
                 = (photons, s1))
          \<and> (0 < k \<and> \<not> q \<le> u \<longrightarrow>
               traceCausticsPhoton env md k throughput ray prev_specular s photons =
                 (case scatterPhoton env (vdiv throughput q) ray info s1 of
                    (throughput2, ray2, s2) \<Rightarrow>
                      traceCausticsPhoton env md (k + 1) throughput2 ray2 True s2 photons))
          \<and> (k = 0 \<longrightarrow>
               traceCausticsPhoton env md k throughput ray prev_specular s photons =
                 (case scatterPhoton env throughput ray info s of
                    (throughput2, ray2, s2) \<Rightarrow>
                      traceCausticsPhoton env md (k + 1) throughput2 ray2 True s2 photons)))
       \<and> (\<forall>pm i s0.
             k = 0 \<and> maxDepth pm = md \<and> i < nPhotonsGlobal pm
             \<and> sampleRayFromLight env s0 = ((ray, throughput), s) \<longrightarrow>
             globalPhotonLoop env pm i s0 photons =
               (case scatterPhoton env throughput ray info s of
                  (throughput2, ray2, s2) \<Rightarrow>
                    (case traceGlobalPhoton env md 1 throughput2 ray2 s2 deposited of
                       (photons', s') \<Rightarrow> globalPhotonLoop env pm (i + 1) s' photons')))
       \<and> (\<forall>pm i s0.
             k = 0 \<and> maxDepth pm = md \<and> i < nPhotonsCaustics pm
             \<and> getBxDFType env (hitPrimitive info) \<noteq> DIFFUSE
             \<and> sampleRayFromLight env s0 = ((ray, throughput), s) \<longrightarrow>
             causticsPhotonLoop env pm i s0 photons =
               (case scatterPhoton env throughput ray info s of
                  (throughput2, ray2, s2) \<Rightarrow>
                    (case traceCausticsPhoton env md 1 throughput2 ray2 True s2 photons of
                       (photons', s') \<Rightarrow> causticsPhotonLoop env pm (i + 1) s' photons')))
       \<and> (\<forall>pm sampler.
             globalPhotonMap (build env pm sampler) =
               fst (globalPhotonLoop env pm 0
                      (setSeed env sampler (getSeed env sampler * (0 + 1))) [])
             \<and> (0 < finalGatheringDepth pm \<longrightarrow>
                  causticsPhotonMap (build env pm sampler) =
                    fst (causticsPhotonLoop env
                           (pm\<lparr>globalPhotonMap :=
                                 fst (globalPhotonLoop env pm 0
                                        (setSeed env sampler (getSeed env sampler * (0 + 1)))
                                        [])\<rparr>)
                           0
                           (snd (globalPhotonLoop env pm 0
                                   (setSeed env sampler (getSeed env sampler * (0 + 1))) []))
                           [])))"
proof -
  have sp: "getBxDFType env (hitPrimitive info) \<noteq> DIFFUSE
            \<Longrightarrow> getBxDFType env (hitPrimitive info) = SPECULAR"
    by (cases "getBxDFType env (hitPrimitive info)") simp_all
  have g1: "0 < k \<and> q \<le> u \<longrightarrow>
            traceGlobalPhoton env md k throughput ray s photons = (deposited, s1)"
    using assms
    by (simp add: traceGlobalPhoton.simps [of env md k throughput ray s photons]
          globalBounce_def russianRoulette_def Let_def)
  have g2: "0 < k \<and> \<not> q \<le> u \<longrightarrow>
            traceGlobalPhoton env md k throughput ray s photons =
              (case scatterPhoton env (vdiv throughput q) ray info s1 of
                 (throughput2, ray2, s2) \<Rightarrow>
                   traceGlobalPhoton env md (k + 1) throughput2 ray2 s2 deposited)"
    using assms
    by (simp add: traceGlobalPhoton.simps [of env md k throughput ray s photons]
          globalBounce_def russianRoulette_def Let_def split: prod.splits)
  have g3: "k = 0 \<longrightarrow>
            traceGlobalPhoton env md k throughput ray s photons =
              (case scatterPhoton env throughput ray info s of
                 (throughput2, ray2, s2) \<Rightarrow>
                   traceGlobalPhoton env md (k + 1) throughput2 ray2 s2 deposited)"
    using assms
    by (auto simp add: traceGlobalPhoton.simps [of env md 0 throughput ray s photons]
          globalBounce_def russianRoulette_def Let_def split: prod.splits)
  have c1: "getBxDFType env (hitPrimitive info) \<noteq> DIFFUSE \<Longrightarrow> 0 < k \<and> q \<le> u \<longrightarrow>
               traceCausticsPhoton env md k throughput ray prev_specular s photons
                 = (photons, s1)"
    using assms sp
    by (simp add: traceCausticsPhoton.simps [of env md k throughput ray prev_specular s photons]
          causticsBounce_def russianRoulette_def Let_def)
  have c2: "getBxDFType env (hitPrimitive info) \<noteq> DIFFUSE \<Longrightarrow> 0 < k \<and> \<not> q \<le> u \<longrightarrow>
               traceCausticsPhoton env md k throughput ray prev_specular s photons =
                 (case scatterPhoton env (vdiv throughput q) ray info s1 of
                    (throughput2, ray2, s2) \<Rightarrow>
                      traceCausticsPhoton env md (k + 1) throughput2 ray2 True s2 photons)"
    using assms sp
    by (simp add: traceCausticsPhoton.simps [of env md k throughput ray prev_specular s photons]
          causticsBounce_def russianRoulette_def Let_def split: prod.splits)
  have c3: "getBxDFType env (hitPrimitive info) \<noteq> DIFFUSE \<Longrightarrow> k = 0 \<longrightarrow>
               traceCausticsPhoton env md k throughput ray prev_specular s photons =
                 (case scatterPhoton env throughput ray info s of
                    (throughput2, ray2, s2) \<Rightarrow>
                      traceCausticsPhoton env md (k + 1) throughput2 ray2 True s2 photons)"
    using assms sp
    by (auto simp add: traceCausticsPhoton.simps [of env md 0 throughput ray prev_specular s photons]
          causticsBounce_def russianRoulette_def Let_def split: prod.splits)
  have l1: "\<forall>pm i s0.
             k = 0 \<and> maxDepth pm = md \<and> i < nPhotonsGlobal pm
             \<and> sampleRayFromLight env s0 = ((ray, throughput), s) \<longrightarrow>
             globalPhotonLoop env pm i s0 photons =
               (case scatterPhoton env throughput ray info s of
                  (throughput2, ray2, s2) \<Rightarrow>
                    (case traceGlobalPhoton env md 1 throughput2 ray2 s2 deposited of
                       (photons', s') \<Rightarrow> globalPhotonLoop env pm (i + 1) s' photons'))"
  proof (intro allI impI)
    fix pm :: PhotonMapping and i s0
    assume h: "k = 0 \<and> maxDepth pm = md \<and> i < nPhotonsGlobal pm
             \<and> sampleRayFromLight env s0 = ((ray, throughput), s)"
    then show "globalPhotonLoop env pm i s0 photons =
               (case scatterPhoton env throughput ray info s of
                  (throughput2, ray2, s2) \<Rightarrow>
                    (case traceGlobalPhoton env md 1 throughput2 ray2 s2 deposited of
                       (photons', s') \<Rightarrow> globalPhotonLoop env pm (i + 1) s' photons'))"
      using g3
      by (simp add: globalPhotonLoop.simps [of env pm i s0 photons] split: prod.splits)
  qed
  have l2: "\<forall>pm i s0.
             k = 0 \<and> maxDepth pm = md \<and> i < nPhotonsCaustics pm
             \<and> getBxDFType env (hitPrimitive info) \<noteq> DIFFUSE
             \<and> sampleRayFromLight env s0 = ((ray, throughput), s) \<longrightarrow>
             causticsPhotonLoop env pm i s0 photons =
               (case scatterPhoton env throughput ray info s of
                  (throughput2, ray2, s2) \<Rightarrow>
                    (case traceCausticsPhoton env md 1 throughput2 ray2 True s2 photons of
                       (photons', s') \<Rightarrow> causticsPhotonLoop env pm (i + 1) s' photons'))"
  proof (intro allI impI)
    fix pm :: PhotonMapping and i s0
    assume h: "k = 0 \<and> maxDepth pm = md \<and> i < nPhotonsCaustics pm
             \<and> getBxDFType env (hitPrimitive info) \<noteq> DIFFUSE
             \<and> sampleRayFromLight env s0 = ((ray, throughput), s)"
    then have "traceCausticsPhoton env md 0 throughput ray False s photons =
                 (case scatterPhoton env throughput ray info s of
                    (throughput2, ray2, s2) \<Rightarrow>
                      traceCausticsPhoton env md (0 + 1) throughput2 ray2 True s2 photons)"
      using assms sp
      by (simp add: traceCausticsPhoton.simps [of env md 0 throughput ray False s photons]
            causticsBounce_def russianRoulette_def Let_def split: prod.splits)
    with h show "causticsPhotonLoop env pm i s0 photons =
               (case scatterPhoton env throughput ray info s of
                  (throughput2, ray2, s2) \<Rightarrow>
                    (case traceCausticsPhoton env md 1 throughput2 ray2 True s2 photons of
                       (photons', s') \<Rightarrow> causticsPhotonLoop env pm (i + 1) s' photons'))"
      by (simp add: causticsPhotonLoop.simps [of env pm i s0 photons] split: prod.splits)
  qed
  have b: "\<forall>pm sampler.
             globalPhotonMap (build env pm sampler) =
               fst (globalPhotonLoop env pm 0
                      (setSeed env sampler (getSeed env sampler * (0 + 1))) [])
             \<and> (0 < finalGatheringDepth pm \<longrightarrow>
                  causticsPhotonMap (build env pm sampler) =
                    fst (causticsPhotonLoop env
                           (pm\<lparr>globalPhotonMap :=
                                 fst (globalPhotonLoop env pm 0
                                        (setSeed env sampler (getSeed env sampler * (0 + 1)))
                                        [])\<rparr>)
                           0
                           (snd (globalPhotonLoop env pm 0
                                   (setSeed env sampler (getSeed env sampler * (0 + 1))) []))
                           []))"
    by (simp add: build_def Let_def split: prod.splits)
  show ?thesis
    using g1 g2 g3 c1 c2 c3 l1 l2 b by blast
qed

text \<open>
  Every variate of the test scenes is \<open>1/2\<close>. At bounce 1 a photon of throughput \<open>1/4\<close>
  has \<open>q = 1/4\<close> and ends, on the floor after its deposit (global pass) and at the glass
  with no deposit (caustics pass); a photon of throughput 2 has \<open>q = 1\<close> and goes on, one
  variate later. In the scene with the lamp facing the glass a path of two bounces
  leaves the lamp with throughput 8, passes the glass at bounce 0 without roulette
  and with twice the throughput, and reaches the floor at bounce 1: the global pass
  deposits there, survives the roulette and stops at the maximal depth; the caustics
  pass deposits and ends the path. Both maps of \<open>build\<close> hold that one photon.
\<close>

theorem russian_roulette_both_passes_witness:
  "traceGlobalPhoton testScene 5 1 (v3 (1/4) (1/4) (1/4))
     \<lparr>origin = v3 0 1 0, direction = v3 0 (-1) 0, tmax = Fin 1000\<rparr> 7 []
     = ([Photon (v3 (1/4) (1/4) (1/4)) (v3 0 0 0) (v3 0 1 0)], 8)
   \<and> traceGlobalPhoton testScene 2 1 (v3 2 2 2)
     \<lparr>origin = v3 0 1 0, direction = v3 0 (-1) 0, tmax = Fin 1000\<rparr> 7 []
     = ([Photon (v3 2 2 2) (v3 0 0 0) (v3 0 1 0)], 10)
   \<and> traceCausticsPhoton testScene 5 1 (v3 (1/4) (1/4) (1/4))
     \<lparr>origin = v3 0 1 0, direction = v3 1 0 0, tmax = Fin 1000\<rparr> False 7 []
     = ([], 8)
   \<and> traceCausticsPhoton testScene 2 1 (v3 2 2 2)
     \<lparr>origin = v3 0 1 0, direction = v3 1 0 0, tmax = Fin 1000\<rparr> False 7 []
     = ([], 9)
   \<and> traceGlobalPhoton causticScene 2 0 (v3 8 8 8)
     \<lparr>origin = v3 0 1 0, direction = v3 1 0 0, tmax = Fin 1000\<rparr> 12 []
     = ([Photon (v3 16 16 16) (v3 0 0 0) (v3 0 1 0)], 16)
   \<and> globalPhotonLoop causticScene (PhotonMapping_ctor 1 1 (Fin 1) 2 1 2) 0 7 []
     = ([Photon (v3 16 16 16) (v3 0 0 0) (v3 0 1 0)], 16)
   \<and> causticsPhotonLoop causticScene (PhotonMapping_ctor 1 1 (Fin 1) 2 1 2) 0 7 []
     = ([Photon (v3 16 16 16) (v3 0 0 0) (v3 0 1 0)], 13)
   \<and> globalPhotonMap (build causticScene (PhotonMapping_ctor 1 1 (Fin 1) 2 1 2) 7)
     = [Photon (v3 16 16 16) (v3 0 0 0) (v3 0 1 0)]
   \<and> causticsPhotonMap (build causticScene (PhotonMapping_ctor 1 1 (Fin 1) 2 1 2) 7)
     = [Photon (v3 16 16 16) (v3 0 0 0) (v3 0 1 0)]"
proof -
  let ?down = "\<lparr>origin = v3 0 1 0, direction = v3 0 (-1) 0, tmax = Fin 1000\<rparr>"
  let ?side = "\<lparr>origin = v3 0 1 0, direction = v3 1 0 0, tmax = Fin 1000\<rparr>"
  let ?fall = "\<lparr>origin = v3 1 1 0, direction = v3 0 (-1) 0, tmax = Fin 1000\<rparr>"
  let ?dim = "v3 (1/4) (1/4) (1/4)"
  let ?bright = "v3 2 2 2"
  let ?pm = "PhotonMapping_ctor 1 1 (Fin 1) 2 1 2"
  have vd: "\<not> nanOrNegative ?dim" and vb: "\<not> nanOrNegative ?bright"
    and v8: "\<not> nanOrNegative (v3 8 8 8)" and v16: "\<not> nanOrNegative (v3 16 16 16)"
    by simp_all
  have hf: "\<And>env. intersect env = intersect testScene \<Longrightarrow> intersect env ?down = Some floorHit"
    and hg: "\<And>env. intersect env = intersect testScene \<Longrightarrow> intersect env ?side = Some glassHit"
    and hl: "\<And>env. intersect env = intersect testScene \<Longrightarrow> intersect env ?fall = Some floorHit"
    by simp_all
  have qd: "Fin (1/4) = std_min (std_max (vx ?dim) (std_max (vy ?dim) (vz ?dim))) (Fin 1)"
    and qb: "Fin 1 = std_min (std_max (vx ?bright) (std_max (vy ?bright) (vz ?bright))) (Fin 1)"
    and q8: "Fin 1 = std_min (std_max (vx (v3 8 8 8)) (std_max (vy (v3 8 8 8)) (vz (v3 8 8 8))))
                       (Fin 1)"
    and q16: "Fin 1 = std_min (std_max (vx (v3 16 16 16))
                                 (std_max (vy (v3 16 16 16)) (vz (v3 16 16 16)))) (Fin 1)"
    by (simp_all add: std_min_def std_max_def)
  have u: "\<And>s. getNext1D testScene s = (Fin (1/2), s + 1)"
    and uc: "\<And>s. getNext1D causticScene s = (Fin (1/2), s + 1)"
    by simp_all
  have df: "\<And>env t ray. getBxDFType env = getBxDFType testScene \<Longrightarrow> direction ray = v3 0 (-1) 0 \<Longrightarrow>
           [Photon t (v3 0 0 0) (v3 0 1 0)] =
           (if getBxDFType env (hitPrimitive floorHit) = DIFFUSE
            then [] @ [Photon t (position (surfaceInfo floorHit)) (- direction ray)]
            else [])"
    by simp
  have dg: "\<And>env t ray. getBxDFType env = getBxDFType testScene \<Longrightarrow>
           [] =
           (if getBxDFType env (hitPrimitive glassHit) = DIFFUSE
            then [] @ [Photon t (position (surfaceInfo glassHit)) (- direction ray)]
            else [])"
    by simp
  have ng: "getBxDFType testScene (hitPrimitive glassHit) \<noteq> DIFFUSE"
    and ngc: "getBxDFType causticScene (hitPrimitive glassHit) \<noteq> DIFFUSE"
    by simp_all
  note f1 = russian_roulette_both_passes [where env = testScene and k = 1 and md = 5
      and throughput = ?dim and ray = ?down and info = floorHit and s = 7 and photons = "[]"
      and prev_specular = False, OF _ vd hf [OF refl] qd u df [OF refl]]
  note f2 = russian_roulette_both_passes [where env = testScene and k = 1 and md = 2
      and throughput = ?bright and ray = ?down and info = floorHit and s = 7 and photons = "[]"
      and prev_specular = False, OF _ vb hf [OF refl] qb u df [OF refl]]
  note g1 = russian_roulette_both_passes [where env = testScene and k = 1 and md = 5
      and throughput = ?dim and ray = ?side and info = glassHit and s = 7 and photons = "[]"
      and prev_specular = False, OF _ vd hg [OF refl] qd u dg [OF refl]]
  note g2 = russian_roulette_both_passes [where env = testScene and k = 1 and md = 2
      and throughput = ?bright and ray = ?side and info = glassHit and s = 7 and photons = "[]"
      and prev_specular = False, OF _ vb hg [OF refl] qb u dg [OF refl]]
  have w1: "traceGlobalPhoton testScene 5 1 ?dim ?down 7 []
              = ([Photon ?dim (v3 0 0 0) (v3 0 1 0)], 8)"
    using f1 by simp
  have w2: "traceGlobalPhoton testScene 2 1 ?bright ?down 7 []
              = ([Photon ?bright (v3 0 0 0) (v3 0 1 0)], 10)"
    using f2 by (simp add: scatterPhoton_floor traceGlobalPhoton_stop)
  have w3: "traceCausticsPhoton testScene 5 1 ?dim ?side False 7 [] = ([], 8)"
    using g1 ng by simp
  have w4: "traceCausticsPhoton testScene 2 1 ?bright ?side False 7 [] = ([], 9)"
    using g2 ng by (simp add: scatterPhoton_glass traceCausticsPhoton_stop)
  note e1 = russian_roulette_both_passes [where env = causticScene and k = 0 and md = 2
      and throughput = "v3 8 8 8" and ray = ?side and info = glassHit and s = 12
      and photons = "[]" and prev_specular = False,
      OF _ v8 hg q8 uc dg]
  note e2 = russian_roulette_both_passes [where env = causticScene and k = 1 and md = 2
      and throughput = "v3 16 16 16" and ray = ?fall and info = floorHit and s = 13
      and photons = "[]" and prev_specular = False,
      OF _ v16 hl q16 uc df]
  have t1: "traceGlobalPhoton causticScene 2 1 (v3 16 16 16) ?fall 13 []
              = ([Photon (v3 16 16 16) (v3 0 0 0) (v3 0 1 0)], 16)"
    using e2
    by (simp add: scatterPhoton_causticScene scatterPhoton_floor traceGlobalPhoton_stop)
  have w5: "traceGlobalPhoton causticScene 2 0 (v3 8 8 8) ?side 12 []
              = ([Photon (v3 16 16 16) (v3 0 0 0) (v3 0 1 0)], 16)"
    using e1 t1 by (simp add: scatterPhoton_causticScene scatterPhoton_glass)
  have w6: "globalPhotonLoop causticScene ?pm 0 7 []
              = ([Photon (v3 16 16 16) (v3 0 0 0) (v3 0 1 0)], 16)"
  proof -
    from e1 have "maxDepth ?pm = 2 \<and> 0 < nPhotonsGlobal ?pm
          \<and> sampleRayFromLight causticScene 7 = ((?side, v3 8 8 8), 12) \<longrightarrow>
          globalPhotonLoop causticScene ?pm 0 7 [] =
            (case scatterPhoton causticScene (v3 8 8 8) ?side glassHit 12 of
               (throughput2, ray2, s2) \<Rightarrow>
                 (case traceGlobalPhoton causticScene 2 1 throughput2 ray2 s2 [] of
                    (photons', s') \<Rightarrow> globalPhotonLoop causticScene ?pm (0 + 1) s' photons'))"
      by simp
    then show ?thesis
      using t1
      by (simp add: PhotonMapping_ctor_def sampleRayFromLight_causticScene
            scatterPhoton_causticScene scatterPhoton_glass globalPhotonLoop_stop)
  qed
  note e3 = russian_roulette_both_passes [where env = causticScene and k = 0 and md = 2
      and throughput = "v3 8 8 8" and ray = ?side and info = glassHit and s = 12
      and photons = "[]" and prev_specular = False,
      OF _ v8 hg q8 uc dg]
  have t2: "traceCausticsPhoton causticScene 2 1 (v3 16 16 16) ?fall True 13 []
              = ([Photon (v3 16 16 16) (v3 0 0 0) (v3 0 1 0)], 13)"
    by (simp add: traceCausticsPhoton_go causticsBounce_def)
  have w7: "causticsPhotonLoop causticScene ?pm 0 7 []
              = ([Photon (v3 16 16 16) (v3 0 0 0) (v3 0 1 0)], 13)"
  proof -
    from e3 ngc have "maxDepth ?pm = 2 \<and> 0 < nPhotonsCaustics ?pm
          \<and> sampleRayFromLight causticScene 7 = ((?side, v3 8 8 8), 12) \<longrightarrow>
          causticsPhotonLoop causticScene ?pm 0 7 [] =
            (case scatterPhoton causticScene (v3 8 8 8) ?side glassHit 12 of
               (throughput2, ray2, s2) \<Rightarrow>
                 (case traceCausticsPhoton causticScene 2 1 throughput2 ray2 True s2 [] of
                    (photons', s') \<Rightarrow> causticsPhotonLoop causticScene ?pm (0 + 1) s' photons'))"
      by simp
    then show ?thesis
      using t2
      by (simp add: PhotonMapping_ctor_def int_to_float_def sampleRayFromLight_causticScene
            scatterPhoton_causticScene scatterPhoton_glass causticsPhotonLoop_stop)
  qed
  have w8: "globalPhotonMap (build causticScene ?pm 7)
              = [Photon (v3 16 16 16) (v3 0 0 0) (v3 0 1 0)]"
    and w9: "causticsPhotonMap (build causticScene ?pm 7)
              = [Photon (v3 16 16 16) (v3 0 0 0) (v3 0 1 0)]"
  proof -
    from e1 have b: "globalPhotonMap (build causticScene ?pm 7) =
               fst (globalPhotonLoop causticScene ?pm 0
                      (setSeed causticScene 7 (getSeed causticScene 7 * (0 + 1))) [])
             \<and> (0 < finalGatheringDepth ?pm \<longrightarrow>
                  causticsPhotonMap (build causticScene ?pm 7) =
                    fst (causticsPhotonLoop causticScene
                           (?pm\<lparr>globalPhotonMap :=
                                 fst (globalPhotonLoop causticScene ?pm 0
                                        (setSeed causticScene 7 (getSeed causticScene 7 * (0 + 1)))
                                        [])\<rparr>)
                           0
                           (snd (globalPhotonLoop causticScene ?pm 0
                                   (setSeed causticScene 7 (getSeed causticScene 7 * (0 + 1))) []))
                           []))"
      by simp
    have fg: "0 < finalGatheringDepth ?pm"
      by (simp add: PhotonMapping_ctor_def)
    show "globalPhotonMap (build causticScene ?pm 7)
              = [Photon (v3 16 16 16) (v3 0 0 0) (v3 0 1 0)]"
      using b by (simp add: globalPhotonLoop_causticScene)
    show "causticsPhotonMap (build causticScene ?pm 7)
              = [Photon (v3 16 16 16) (v3 0 0 0) (v3 0 1 0)]"
      using b fg by (simp add: globalPhotonLoop_causticScene causticsPhotonLoop_causticScene)
  qed
  show ?thesis
    using w1 w2 w3 w4 w5 w6 w7 w8 w9 by simp
qed

text \<open>In a scene with diffuse surfaces only, no path of the caustics pass deposits.\<close>

lemma causticsBounce_all_diffuse:
  assumes "\<forall>p. getBxDFType env p = DIFFUSE"
  shows "causticsBounce env k throughput ray False s photons = Break (photons, s)"
  using assms by (simp add: causticsBounce_def Let_def split: option.splits)

lemma traceCausticsPhoton_all_diffuse:
  assumes "\<forall>p. getBxDFType env p = DIFFUSE"
  shows "traceCausticsPhoton env md k throughput ray False s photons = (photons, s)"
  using assms
  by (simp add: traceCausticsPhoton.simps [of env md k throughput ray False s photons]
        causticsBounce_all_diffuse)

lemma causticsPhotonLoop_all_diffuse:
  "\<forall>p. getBxDFType env p = DIFFUSE \<Longrightarrow> fst (causticsPhotonLoop env pm i s photons) = photons"
proof (induction env pm i s photons rule: causticsPhotonLoop.induct)
  case (1 env pm i s photons)
  show ?case
  proof (cases "i < nPhotonsCaustics pm")
    case False
    then show ?thesis
      by (simp add: causticsPhotonLoop.simps [of env pm i s photons])
  next
    case True
    obtain ray throughput s1 where r: "sampleRayFromLight env s = ((ray, throughput), s1)"
      by (metis surj_pair)
    have t: "traceCausticsPhoton env (maxDepth pm) 0 throughput ray False s1 photons
               = (photons, s1)"
      using "1.prems" by (rule traceCausticsPhoton_all_diffuse)
    have "fst (causticsPhotonLoop env pm (i + 1) s1 photons) = photons"
      using "1.IH" [OF True r [symmetric] refl t [symmetric] "1.prems"] .
    then show ?thesis
      using True r t by (simp add: causticsPhotonLoop.simps [of env pm i s photons])
  qed
qed

lemma diffuseScene_tags: "\<forall>p. getBxDFType diffuseScene p = DIFFUSE"
  by (simp add: diffuseScene_def)

text \<open>
  C5. In the caustics pass every path carries the flag \<open>prev_specular\<close>:
  \<^item> on a diffuse hit with the flag false the path ends and the photon vector is as
    before; on a diffuse hit with the flag true the path ends with exactly one photon
    appended;
  \<^item> a bounce that does not end the path (a hit that is not diffuse, the roulette
    survived) deposits nothing, and the path goes on at the next bounce with the flag
    \<open>material = SPECULAR\<close>: the flag a bounce sets is the flag the next bounce sees;
  \<^item> every path of the pass starts with the flag false: a path whose first hit is
    diffuse leaves the photon vector as it was;
  \<^item> the caustics map after \<open>build\<close> is the photon vector of the pass, which runs when
    \<open>finalGatheringDepth > 0\<close>.
  Hence, in a scene with diffuse surfaces only, no path changes the photon vector and
  the caustics map is empty after \<open>build\<close>.
\<close>

theorem caustics_pass_prev_specular:
  "(\<forall>info. k < md \<and> \<not> nanOrNegative throughput \<and> intersect env ray = Some info
            \<and> getBxDFType env (hitPrimitive info) = DIFFUSE
      \<longrightarrow> traceCausticsPhoton env md k throughput ray False s photons = (photons, s)
        \<and> traceCausticsPhoton env md k throughput ray True s photons =
            (photons @ [Photon throughput (position (surfaceInfo info)) (- direction ray)], s))
   \<and> (\<forall>info throughput1 s1 throughput2 ray2 s2.
         k < md \<and> \<not> nanOrNegative throughput \<and> intersect env ray = Some info
         \<and> getBxDFType env (hitPrimitive info) \<noteq> DIFFUSE
         \<and> russianRoulette env k throughput s = (Some throughput1, s1)
         \<and> scatterPhoton env throughput1 ray info s1 = (throughput2, ray2, s2)
      \<longrightarrow> traceCausticsPhoton env md k throughput ray prev_specular s photons =
            traceCausticsPhoton env md (k + 1) throughput2 ray2
              (getBxDFType env (hitPrimitive info) = SPECULAR) s2 photons)
   \<and> (\<forall>throughput' ray' prev_specular' s' photons'.
         causticsBounce env k throughput ray prev_specular s photons =
           Continue (throughput', ray', prev_specular', s', photons')
      \<longrightarrow> (\<exists>info. intersect env ray = Some info
                  \<and> prev_specular' = (getBxDFType env (hitPrimitive info) = SPECULAR))
        \<and> photons' = photons)
   \<and> (\<forall>pm i s0 info.
         i < nPhotonsCaustics pm \<and> 0 < maxDepth pm
         \<and> sampleRayFromLight env s0 = ((ray, throughput), s)
         \<and> \<not> nanOrNegative throughput \<and> intersect env ray = Some info
         \<and> getBxDFType env (hitPrimitive info) = DIFFUSE
      \<longrightarrow> causticsPhotonLoop env pm i s0 photons = causticsPhotonLoop env pm (i + 1) s photons)
   \<and> (\<forall>pm sampler.
         causticsPhotonMap (build env pm sampler) =
           (if 0 < finalGatheringDepth pm
            then fst (causticsPhotonLoop env
                        (pm\<lparr>globalPhotonMap :=
                              fst (globalPhotonLoop env pm 0
                                     (setSeed env sampler (getSeed env sampler * (0 + 1))) [])\<rparr>)
                        0
                        (snd (globalPhotonLoop env pm 0
                                (setSeed env sampler (getSeed env sampler * (0 + 1))) []))
                        [])
            else causticsPhotonMap pm))
   \<and> ((\<forall>p. getBxDFType env p = DIFFUSE)
      \<longrightarrow> fst (traceCausticsPhoton env md k throughput ray False s photons) = photons
        \<and> causticsPhotonMap
            (build env (PhotonMapping_ctor nPhotons nEstGlobal multiplier nEstCaustics
                          strictCalcDepth md) sampler') = [])"
proof (intro conjI allI impI)
  fix info
  assume h: "k < md \<and> \<not> nanOrNegative throughput \<and> intersect env ray = Some info
            \<and> getBxDFType env (hitPrimitive info) = DIFFUSE"
  then show "traceCausticsPhoton env md k throughput ray False s photons = (photons, s)"
    by (simp add: traceCausticsPhoton.simps [of env md k throughput ray False s photons]
          causticsBounce_def)
  from h show "traceCausticsPhoton env md k throughput ray True s photons =
            (photons @ [Photon throughput (position (surfaceInfo info)) (- direction ray)], s)"
    by (simp add: traceCausticsPhoton.simps [of env md k throughput ray True s photons]
          causticsBounce_def)
next
  fix info throughput1 s1 throughput2 ray2 s2
  assume h: "k < md \<and> \<not> nanOrNegative throughput \<and> intersect env ray = Some info
         \<and> getBxDFType env (hitPrimitive info) \<noteq> DIFFUSE
         \<and> russianRoulette env k throughput s = (Some throughput1, s1)
         \<and> scatterPhoton env throughput1 ray info s1 = (throughput2, ray2, s2)"
  then show "traceCausticsPhoton env md k throughput ray prev_specular s photons =
            traceCausticsPhoton env md (k + 1) throughput2 ray2
              (getBxDFType env (hitPrimitive info) = SPECULAR) s2 photons"
    by (simp add: traceCausticsPhoton.simps [of env md k throughput ray prev_specular s photons]
          causticsBounce_def Let_def)
next
  fix throughput' ray' prev_specular' s' photons'
  assume c: "causticsBounce env k throughput ray prev_specular s photons =
           Continue (throughput', ray', prev_specular', s', photons')"
  then show "\<exists>info. intersect env ray = Some info
                  \<and> prev_specular' = (getBxDFType env (hitPrimitive info) = SPECULAR)"
    by (auto simp add: causticsBounce_def Let_def
          split: if_splits option.splits prod.splits)
  from c show "photons' = photons"
    by (auto simp add: causticsBounce_def Let_def
          split: if_splits option.splits prod.splits)
next
  fix pm :: PhotonMapping and i s0 and info :: "'a IntersectInfo"
  assume h: "i < nPhotonsCaustics pm \<and> 0 < maxDepth pm
         \<and> sampleRayFromLight env s0 = ((ray, throughput), s)
         \<and> \<not> nanOrNegative throughput \<and> intersect env ray = Some info
         \<and> getBxDFType env (hitPrimitive info) = DIFFUSE"
  then have "traceCausticsPhoton env (maxDepth pm) 0 throughput ray False s photons
               = (photons, s)"
    by (simp add: traceCausticsPhoton.simps [of env "maxDepth pm" 0 throughput ray False s photons]
          causticsBounce_def)
  with h show "causticsPhotonLoop env pm i s0 photons
                 = causticsPhotonLoop env pm (i + 1) s photons"
    by (simp add: causticsPhotonLoop.simps [of env pm i s0 photons])
next
  fix pm :: PhotonMapping and sampler
  show "causticsPhotonMap (build env pm sampler) =
           (if 0 < finalGatheringDepth pm
            then fst (causticsPhotonLoop env
                        (pm\<lparr>globalPhotonMap :=
                              fst (globalPhotonLoop env pm 0
                                     (setSeed env sampler (getSeed env sampler * (0 + 1))) [])\<rparr>)
                        0
                        (snd (globalPhotonLoop env pm 0
                                (setSeed env sampler (getSeed env sampler * (0 + 1))) []))
                        [])
            else causticsPhotonMap pm)"
    by (simp add: build_def Let_def split: prod.splits)
next
  assume d: "\<forall>p. getBxDFType env p = DIFFUSE"
  then show "fst (traceCausticsPhoton env md k throughput ray False s photons) = photons"
    by (simp add: traceCausticsPhoton_all_diffuse)
  show "causticsPhotonMap
            (build env (PhotonMapping_ctor nPhotons nEstGlobal multiplier nEstCaustics
                          strictCalcDepth md) sampler') = []"
  proof -
    have e: "\<And>pm s. fst (causticsPhotonLoop env pm 0 s []) = []"
      using d by (rule causticsPhotonLoop_all_diffuse)
    show ?thesis
      using e
      by (auto simp add: build_def Let_def PhotonMapping_ctor_def split: prod.splits)
         (metis fst_conv)
  qed
qed

text \<open>
  In the test scene: a photon that reaches the floor at its first bounce, with the flag
  false and with the flag true; a path that passes the glass and then reaches the
  floor, which deposits one photon; and a pass of one path whose first hit is the
  floor. With the lamp facing the glass the pass of one path leaves one photon in the
  caustics map, and none when \<open>finalGatheringDepth = 0\<close>. The all-diffuse scene leaves
  the caustics map empty.
\<close>

theorem caustics_pass_prev_specular_witness:
  "traceCausticsPhoton testScene 5 0 (v3 2 2 2)
     \<lparr>origin = v3 0 1 0, direction = v3 0 (-1) 0, tmax = Fin 1000\<rparr> False 7 [] = ([], 7)
   \<and> traceCausticsPhoton testScene 5 0 (v3 2 2 2)
     \<lparr>origin = v3 0 1 0, direction = v3 0 (-1) 0, tmax = Fin 1000\<rparr> True 7 []
     = ([Photon (v3 2 2 2) (v3 0 0 0) (v3 0 1 0)], 7)
   \<and> traceCausticsPhoton testScene 5 0 (v3 2 2 2)
     \<lparr>origin = v3 0 1 0, direction = v3 1 0 0, tmax = Fin 1000\<rparr> False 7 []
     = ([Photon (v3 4 4 4) (v3 0 0 0) (v3 0 1 0)], 8)
   \<and> causticsPhotonLoop testScene (PhotonMapping_ctor 1 1 (Fin 1) 2 1 5) 0 7 [] = ([], 12)
   \<and> causticsPhotonMap (build causticScene (PhotonMapping_ctor 1 1 (Fin 1) 2 1 2) 7)
     = [Photon (v3 16 16 16) (v3 0 0 0) (v3 0 1 0)]
   \<and> causticsPhotonMap (build causticScene (PhotonMapping_ctor 1 1 (Fin 1) 2 0 2) 7) = []
   \<and> causticsPhotonMap (build diffuseScene (PhotonMapping_ctor 4 1 (Fin 1) 2 1 5) 7) = []"
proof -
  let ?down = "\<lparr>origin = v3 0 1 0, direction = v3 0 (-1) 0, tmax = Fin 1000\<rparr>"
  let ?side = "\<lparr>origin = v3 0 1 0, direction = v3 1 0 0, tmax = Fin 1000\<rparr>"
  let ?fall = "\<lparr>origin = v3 1 1 0, direction = v3 0 (-1) 0, tmax = Fin 1000\<rparr>"
  let ?lamp = "\<lparr>origin = v3 0 2 0, direction = v3 0 (-1) 0, tmax = Fin 1000\<rparr>"
  let ?pm = "PhotonMapping_ctor 1 1 (Fin 1) 2 1 5"
  note floor0 = caustics_pass_prev_specular [where k = 0 and md = 5 and throughput = "v3 2 2 2"
      and env = testScene and ray = ?down and s = 7 and photons = "[]"
      and prev_specular = False]
  have a: "traceCausticsPhoton testScene 5 0 (v3 2 2 2) ?down False 7 [] = ([], 7)"
    and b: "traceCausticsPhoton testScene 5 0 (v3 2 2 2) ?down True 7 []
              = ([Photon (v3 2 2 2) (v3 0 0 0) (v3 0 1 0)], 7)"
    using floor0 by simp_all
  note glass0 = caustics_pass_prev_specular [where k = 0 and md = 5 and throughput = "v3 2 2 2"
      and env = testScene and ray = ?side and s = 7 and photons = "[]"
      and prev_specular = False]
  note floor1 = caustics_pass_prev_specular [where k = 1 and md = 5 and throughput = "v3 4 4 4"
      and env = testScene and ray = ?fall and s = 8 and photons = "[]"
      and prev_specular = False]
  have rr: "russianRoulette testScene 0 (v3 2 2 2) 7 = (Some (v3 2 2 2), 7)"
    by (simp add: russianRoulette_def)
  have sc: "scatterPhoton testScene (v3 2 2 2) ?side glassHit 7 = (v3 4 4 4, ?fall, 8)"
    by (simp add: scatterPhoton_glass)
  from glass0 have step:
    "traceCausticsPhoton testScene 5 0 (v3 2 2 2) ?side False 7 []
       = traceCausticsPhoton testScene 5 (0 + 1) (v3 4 4 4) ?fall
           (getBxDFType testScene (hitPrimitive glassHit) = SPECULAR) 8 []"
    using rr sc by simp
  from floor1 have dep:
    "traceCausticsPhoton testScene 5 1 (v3 4 4 4) ?fall True 8 []
       = ([Photon (v3 4 4 4) (v3 0 0 0) (v3 0 1 0)], 8)"
    by simp
  have c: "traceCausticsPhoton testScene 5 0 (v3 2 2 2) ?side False 7 []
             = ([Photon (v3 4 4 4) (v3 0 0 0) (v3 0 1 0)], 8)"
    using step dep by simp
  note lamp0 = caustics_pass_prev_specular [where k = 0 and md = 5 and throughput = "v3 8 8 8"
      and env = testScene and ray = ?lamp and s = 12 and photons = "[]"
      and prev_specular = False]
  from lamp0 have "causticsPhotonLoop testScene ?pm 0 7 []
                     = causticsPhotonLoop testScene ?pm (0 + 1) 12 []"
    by (simp add: sampleRayFromLight_testScene PhotonMapping_ctor_def int_to_float_def)
  then have d: "causticsPhotonLoop testScene ?pm 0 7 [] = ([], 12)"
    by (simp add: causticsPhotonLoop_stop PhotonMapping_ctor_def int_to_float_def)
  note cs = caustics_pass_prev_specular [where k = 0 and md = 2 and throughput = "v3 8 8 8"
      and env = causticScene and ray = ?side and s = 12 and photons = "[]"
      and prev_specular = False]
  from cs have e: "causticsPhotonMap (build causticScene (PhotonMapping_ctor 1 1 (Fin 1) 2 1 2) 7)
             = [Photon (v3 16 16 16) (v3 0 0 0) (v3 0 1 0)]"
    by (simp add: globalPhotonLoop_causticScene causticsPhotonLoop_causticScene)
       (simp add: PhotonMapping_ctor_def)
  from cs have f: "causticsPhotonMap (build causticScene (PhotonMapping_ctor 1 1 (Fin 1) 2 0 2) 7)
             = []"
    by (simp add: PhotonMapping_ctor_def)
  from caustics_pass_prev_specular [where k = 0 and md = 5 and throughput = "v3 2 2 2"
         and env = diffuseScene and ray = ?down and s = 7 and photons = "[]"
         and prev_specular = False and nPhotons = 4 and nEstGlobal = 1
         and multiplier = "Fin 1" and nEstCaustics = 2 and strictCalcDepth = 1
         and sampler' = 7] diffuseScene_tags
  have g: "causticsPhotonMap (build diffuseScene (PhotonMapping_ctor 4 1 (Fin 1) 2 1 5) 7) = []"
    by blast
  show ?thesis using a b c d e f g by simp
qed

section \<open>The main program: arguments and the render phase\<close>

text \<open>
  C2. The claim: the sixth argument is read as a float and the caustics pass traces
  the global photon count times that value, so that \<open>0.5\<close> gives half the global count.
  The code reads the argument with \<^verbatim>\<open>atoi\<close>, which stops at the point: with 1000 global
  photons and the multiplier \<open>0.5\<close> the float is 0 and no caustic photon is traced,
  where the claim says 500. With the multiplier \<open>2\<close> the count is 2000.
\<close>

theorem caustic_multiplier_read_by_atoi:
  "map_option (\<lambda>a. (n_photons a, n_photons_caustics_multiplier a,
                     nPhotonsCaustics (main_integrator a)))
     (parseArgs [''./main'', ''512'', ''512'', ''16'', ''1000'', ''100'', ''0.5'', ''100'',
                 ''4'', ''10''])
   = Some (1000, Fin 0, 0)
   \<and> map_option (\<lambda>a. (n_photons a, n_photons_caustics_multiplier a,
                     nPhotonsCaustics (main_integrator a)))
     (parseArgs [''./main'', ''512'', ''512'', ''16'', ''1000'', ''100'', ''2'', ''100'',
                 ''4'', ''10''])
   = Some (1000, Fin 2, 2000)"
  by (simp add: parseArgs_def main_integrator_def PhotonMapping_ctor_def int_to_float_def
        atoi_def isspace_def isdigit_def)












end
